theory Spec2Isabelle
  imports Complex_Main
begin

section \<open>Python values and errors\<close>

text \<open>
  The exceptions raised in \<^verbatim>\<open>scqubits/core/namedslots_array.py\<close> and by the Python and
  numpy primitives it calls. Every function that can raise returns \<open>error + 'a\<close>, with
  \<open>Inl\<close> for the exception.

  Python floats are idealised as exact rationals: the model has no rounding, no NaN and no
  infinity. Axis value sequences are one-dimensional arrays of floats, \<open>rat list\<close>.
\<close>

datatype error = ValueError | TypeError | IndexError | KeyError

text \<open>A requested value: \<^verbatim>\<open>isinstance(entry, (float, complex))\<close>.\<close>

datatype number = PyFloat rat | PyComplex rat rat

text \<open>A sequence of computations that may raise stops at the first exception.\<close>

fun try_map :: "('a \<Rightarrow> error + 'b) \<Rightarrow> 'a list \<Rightarrow> error + 'b list" where
  "try_map f [] = Inr []"
| "try_map f (x # xs) =
     (case f x of
        Inl e \<Rightarrow> Inl e
      | Inr y \<Rightarrow> (case try_map f xs of Inl e \<Rightarrow> Inl e | Inr ys \<Rightarrow> Inr (y # ys)))"

section \<open>Nearest-value lookup: \<^verbatim>\<open>idx_for_value\<close>\<close>

text \<open>
  \<^verbatim>\<open>math.isclose(a, b)\<close> with its default tolerances \<^verbatim>\<open>rel_tol=1e-09\<close> and
  \<^verbatim>\<open>abs_tol=0.0\<close>, by CPython's formula: equal values are close, and otherwise the
  difference is compared with the relative tolerance scaled by either argument, or with
  the absolute tolerance. The difference and the products are exact here, where CPython
  rounds each of them to a double; the two agree except for arguments whose distance is
  within a rounding error of the tolerance. The lookups evaluated below are far from it:
  their arguments are equal, or apart by more than a hundredth of their size.
\<close>

definition rel_tol :: rat where
  "rel_tol = 1 / 1000000000"

definition abs_tol :: rat where
  "abs_tol = 0"

definition isclose :: "rat \<Rightarrow> rat \<Rightarrow> bool" where
  "isclose a b =
     (a = b \<or>
      (let diff = \<bar>b - a\<bar>
       in diff \<le> \<bar>rel_tol * b\<bar> \<or> diff \<le> \<bar>rel_tol * a\<bar> \<or> diff \<le> abs_tol))"

text \<open>
  \<^verbatim>\<open>ndarray.argmin()\<close>: the position of the first occurrence of the least element;
  \<^verbatim>\<open>ValueError\<close> on an empty array. \<open>argmin_from xs i best bi\<close> scans the rest \<open>xs\<close>,
  whose first element has position \<open>i\<close>, with the least element so far \<open>best\<close> at
  position \<open>bi\<close>.
\<close>

fun argmin_from :: "rat list \<Rightarrow> nat \<Rightarrow> rat \<Rightarrow> nat \<Rightarrow> nat" where
  "argmin_from [] i best bi = bi"
| "argmin_from (x # xs) i best bi =
     (if x < best then argmin_from xs (Suc i) x i else argmin_from xs (Suc i) best bi)"

definition argmin :: "rat list \<Rightarrow> error + nat" where
  "argmin xs = (case xs of [] \<Rightarrow> Inl ValueError | x # rest \<Rightarrow> Inr (argmin_from rest 1 x 0))"

text \<open>
  \<^verbatim>\<open>
  def idx_for_value(value, param_vals):
      location = np.abs(param_vals - value).argmin()
      if math.isclose(param_vals[location], value):
          return location
      raise ValueError("No matching entry for parameter value {} in the array.".format(value))
  \<close>
  For a complex \<^verbatim>\<open>value\<close> the distances are moduli; they are compared through their
  squares. \<^verbatim>\<open>math.isclose\<close> accepts real arguments only and raises \<^verbatim>\<open>TypeError\<close> on a
  Python complex.
\<close>

definition idx_for_value :: "number \<Rightarrow> rat list \<Rightarrow> error + nat" where
  "idx_for_value val param_vals =
     (case val of
        PyFloat v \<Rightarrow>
          (case argmin (map (\<lambda>x. \<bar>x - v\<bar>) param_vals) of
             Inl e \<Rightarrow> Inl e
           | Inr location \<Rightarrow>
               if isclose (param_vals ! location) v then Inr location else Inl ValueError)
      | PyComplex re im \<Rightarrow>
          (case argmin (map (\<lambda>x. (x - re) * (x - re) + im * im) param_vals) of
             Inl e \<Rightarrow> Inl e
           | Inr location \<Rightarrow> Inl TypeError))"

text \<open>
  The specification's wording of the lookup, for comparison with \<open>idx_for_value\<close>:
  position \<open>k\<close> holds an element of the sequence at least as close to \<open>v\<close> as every
  other element, and is the first such position.
\<close>

definition nearest_position :: "rat list \<Rightarrow> rat \<Rightarrow> nat \<Rightarrow> bool" where
  "nearest_position vals v k =
     (k < length vals \<and>
      list_all (\<lambda>y. \<bar>vals ! k - v\<bar> \<le> \<bar>y - v\<bar>) vals \<and>
      list_all (\<lambda>y. \<bar>vals ! k - v\<bar> < \<bar>y - v\<bar>) (take k vals))"

section \<open>Python containers\<close>

text \<open>
  A Python \<^verbatim>\<open>dict\<close> (and \<^verbatim>\<open>OrderedDict\<close>) is an association list in insertion order
  whose keys are distinct. Assigning to a key that is present replaces its value in place;
  assigning to a new key appends it. A lookup of a missing key raises \<^verbatim>\<open>KeyError\<close>.
\<close>

fun dict_set :: "'k \<Rightarrow> 'v \<Rightarrow> ('k \<times> 'v) list \<Rightarrow> ('k \<times> 'v) list" where
  "dict_set k v [] = [(k, v)]"
| "dict_set k v (p # d) = (if fst p = k then (k, v) # d else p # dict_set k v d)"

definition dict_of_items :: "('k \<times> 'v) list \<Rightarrow> ('k \<times> 'v) list" where
  "dict_of_items items = foldl (\<lambda>d (k, v). dict_set k v d) [] items"

definition dict_get :: "('k \<times> 'v) list \<Rightarrow> 'k \<Rightarrow> error + 'v" where
  "dict_get d k = (case map_of d k of None \<Rightarrow> Inl KeyError | Some v \<Rightarrow> Inr v)"

text \<open>
  Indexing a sequence of length \<open>n\<close> with an integer: a negative index counts from the
  end, and an index outside \<open>-n \<dots> n-1\<close> raises \<^verbatim>\<open>IndexError\<close>.
\<close>

definition norm_index :: "nat \<Rightarrow> int \<Rightarrow> error + nat" where
  "norm_index n i =
     (if 0 \<le> i \<and> i < int n then Inr (nat i)
      else if i < 0 \<and> - int n \<le> i then Inr (nat (i + int n))
      else Inl IndexError)"

text \<open>
  \<^verbatim>\<open>slice(start, stop, step).indices(len)\<close>: the bounds and the step of the range a
  slice selects from a sequence of length \<open>len\<close>. A step of zero raises \<^verbatim>\<open>ValueError\<close>.
\<close>

definition slice_indices ::
  "int option \<Rightarrow> int option \<Rightarrow> int option \<Rightarrow> nat \<Rightarrow> error + (int \<times> int \<times> int)" where
  "slice_indices start stop step len =
     (let n = int len;
          st = (case step of None \<Rightarrow> 1 | Some s \<Rightarrow> s)
      in if st = 0 then Inl ValueError
         else
           let lower = (if st < 0 then - 1 else 0);
               upper = (if st < 0 then n - 1 else n);
               b = (case start of
                      None \<Rightarrow> (if st < 0 then upper else lower)
                    | Some s \<Rightarrow> (if s < 0 then max (s + n) lower else min s upper));
               e = (case stop of
                      None \<Rightarrow> (if st < 0 then lower else upper)
                    | Some s \<Rightarrow> (if s < 0 then max (s + n) lower else min s upper))
           in Inr (b, e, st))"

text \<open>\<^verbatim>\<open>range(b, e, st)\<close> for a step other than zero.\<close>

definition py_range :: "int \<Rightarrow> int \<Rightarrow> int \<Rightarrow> int list" where
  "py_range b e st =
     (if 0 < st then
        (if b < e then map (\<lambda>k. b + int k * st) [0 ..< nat ((e - b + st - 1) div st)] else [])
      else
        (if e < b then map (\<lambda>k. b + int k * st) [0 ..< nat ((b - e - st - 1) div (- st))]
         else []))"

text \<open>\<^verbatim>\<open>xs[start:stop:step]\<close> on a list or along the first axis of an array.\<close>

definition getslice ::
  "'a list \<Rightarrow> int option \<Rightarrow> int option \<Rightarrow> int option \<Rightarrow> error + 'a list" where
  "getslice xs start stop step =
     (case slice_indices start stop step (length xs) of
        Inl e \<Rightarrow> Inl e
      | Inr (b, e, st) \<Rightarrow> Inr (map (\<lambda>i. xs ! nat i) (py_range b e st)))"

section \<open>The axis set: class \<^verbatim>\<open>Parameters\<close>\<close>

text \<open>
  The attributes \<^verbatim>\<open>__init__\<close> sets. \<^verbatim>\<open>names\<close> is the same list object as
  \<^verbatim>\<open>paramnames_list\<close>, and \<^verbatim>\<open>ordered_dict\<close> the same dictionary as
  \<^verbatim>\<open>paramvals_by_name\<close>, so each pair is one field.
\<close>

record Parameters =
  paramnames_list :: "string list"
  paramvals_by_name :: "(string \<times> rat list) list"
  index_by_name :: "(string \<times> nat) list"
  name_by_index :: "(nat \<times> string) list"
  paramvals_by_index :: "(nat \<times> rat list) list"

text \<open>
  \<^verbatim>\<open>Parameters.__init__(paramvals_by_name, paramnames_list=None)\<close>. The constructor holds
  no check of its arguments; the only exception it can raise is the \<^verbatim>\<open>KeyError\<close> of a
  dictionary lookup.
\<close>

definition Parameters_init ::
  "(string \<times> rat list) list \<Rightarrow> string list option \<Rightarrow> error + Parameters" where
  "Parameters_init pvbn pnl =
     (let names = (case pnl of Some l \<Rightarrow> l | None \<Rightarrow> map fst pvbn)
      in case try_map (\<lambda>nm. case dict_get pvbn nm of
                               Inl e \<Rightarrow> Inl e
                             | Inr vals \<Rightarrow> Inr (nm, vals)) names of
           Inl e \<Rightarrow> Inl e
         | Inr items \<Rightarrow>
             (let ordered_dict = dict_of_items items;
                  ibn = dict_of_items (map (\<lambda>(i, nm). (nm, i)) (enumerate 0 names));
                  nbi = dict_of_items (enumerate 0 names)
              in case try_map (\<lambda>(nm, vals). case dict_get ibn nm of
                                     Inl e \<Rightarrow> Inl e
                                   | Inr i \<Rightarrow> Inr (i, vals)) ordered_dict of
                   Inl e \<Rightarrow> Inl e
                 | Inr by_index \<Rightarrow>
                     Inr \<lparr>paramnames_list = names,
                          paramvals_by_name = ordered_dict,
                          index_by_name = ibn,
                          name_by_index = nbi,
                          paramvals_by_index = dict_of_items by_index\<rparr>))"

text \<open>
  \<^verbatim>\<open>Parameters.__getitem__(key)\<close> for a string key and for an integer key, the two forms
  this file uses. (The slice and tuple forms are never called here.)
\<close>

definition Parameters_getitem_str :: "Parameters \<Rightarrow> string \<Rightarrow> error + rat list" where
  "Parameters_getitem_str ps key = dict_get (paramvals_by_name ps) key"

definition Parameters_getitem_int :: "Parameters \<Rightarrow> int \<Rightarrow> error + rat list" where
  "Parameters_getitem_int ps key =
     (case norm_index (length (paramnames_list ps)) key of
        Inl e \<Rightarrow> Inl e
      | Inr i \<Rightarrow> dict_get (paramvals_by_name ps) (paramnames_list ps ! i))"

text \<open>
  \<^verbatim>\<open>
  def get_index(self, value, slotindex):
      location = np.abs(self[slotindex] - value).argmin()
      return location
  \<close>
  for a real \<^verbatim>\<open>value\<close>: the position of the closest value, with no test of closeness.
\<close>

definition get_index :: "Parameters \<Rightarrow> rat \<Rightarrow> int \<Rightarrow> error + nat" where
  "get_index ps val slotindex =
     (case Parameters_getitem_int ps slotindex of
        Inl e \<Rightarrow> Inl e
      | Inr param_vals \<Rightarrow> argmin (map (\<lambda>x. \<bar>x - val\<bar>) param_vals))"

text \<open>The property \<^verbatim>\<open>paramvals_list\<close>.\<close>

definition paramvals_list :: "Parameters \<Rightarrow> error + rat list list" where
  "paramvals_list ps = try_map (dict_get (paramvals_by_name ps)) (paramnames_list ps)"

text \<open>
  \<^verbatim>\<open>
  def create_reduced(self, fixed_parametername_list, fixed_values=None):
      if fixed_values is not None:
          fixed_values = [np.asarray(value) for value in fixed_values]
      else:
          fixed_values = [np.asarray([self[name][0]]) for name in fixed_parametername_list]
      reduced_paramvals_by_name = {name: self[name] for name in self.paramnames_list}
      for index, name in enumerate(fixed_parametername_list):
          reduced_paramvals_by_name[name] = fixed_values[index]
      return Parameters(reduced_paramvals_by_name)
  \<close>
  \<open>self[name][0]\<close> raises \<^verbatim>\<open>IndexError\<close> on an empty value sequence, and
  \<open>fixed_values[index]\<close> when fewer values than names were supplied.
\<close>

definition first_value :: "rat list \<Rightarrow> error + rat list" where
  "first_value vals = (case vals of [] \<Rightarrow> Inl IndexError | x # rest \<Rightarrow> Inr [x])"

fun assign_fixed ::
  "(string \<times> rat list) list \<Rightarrow> (nat \<times> string) list \<Rightarrow> rat list list \<Rightarrow>
   error + (string \<times> rat list) list" where
  "assign_fixed d [] fixed_values = Inr d"
| "assign_fixed d ((index, nm) # rest) fixed_values =
     (if index < length fixed_values
      then assign_fixed (dict_set nm (fixed_values ! index) d) rest fixed_values
      else Inl IndexError)"

definition create_reduced ::
  "Parameters \<Rightarrow> string list \<Rightarrow> rat list list option \<Rightarrow> error + Parameters" where
  "create_reduced ps fixed_parametername_list fixed_values_arg =
     (case (case fixed_values_arg of
              Some given \<Rightarrow> Inr given
            | None \<Rightarrow>
                try_map (\<lambda>nm. case Parameters_getitem_str ps nm of
                                 Inl e \<Rightarrow> Inl e
                               | Inr vals \<Rightarrow> first_value vals) fixed_parametername_list) of
        Inl e \<Rightarrow> Inl e
      | Inr fixed_values \<Rightarrow>
          (case try_map (\<lambda>nm. case Parameters_getitem_str ps nm of
                                 Inl e \<Rightarrow> Inl e
                               | Inr vals \<Rightarrow> Inr (nm, vals)) (paramnames_list ps) of
             Inl e \<Rightarrow> Inl e
           | Inr items \<Rightarrow>
               (case assign_fixed (dict_of_items items)
                       (enumerate 0 fixed_parametername_list) fixed_values of
                  Inl e \<Rightarrow> Inl e
                | Inr reduced_paramvals_by_name \<Rightarrow>
                    Parameters_init reduced_paramvals_by_name None)))"

text \<open>
  A standard index for one axis, \<^verbatim>\<open>NpIndex\<close>: an integer or a slice whose components
  are integers or \<^verbatim>\<open>None\<close>. \<^verbatim>\<open>GIndexObject.std\<close> can also return a bare \<^verbatim>\<open>None\<close>
  (for \<^verbatim>\<open>slice(name, None, None)\<close>), which numpy reads as \<^verbatim>\<open>np.newaxis\<close>.
\<close>

datatype npindex =
    NpInt int
  | NpNone
  | NpSlice "int option" "int option" "int option"

text \<open>
  What indexing a one-dimensional array with one standard index gives: an element
  (\<open>PScalar\<close>), a one-dimensional array (\<open>PArr\<close>), or, for \<^verbatim>\<open>None\<close>, the
  two-dimensional array of shape \<open>(1, L)\<close> whose only row is the array itself
  (\<open>PRow\<close>).
\<close>

datatype pobj = PScalar rat | PArr "rat list" | PRow "rat list"

definition index1d :: "rat list \<Rightarrow> npindex \<Rightarrow> error + pobj" where
  "index1d xs np_index =
     (case np_index of
        NpInt i \<Rightarrow>
          (case norm_index (length xs) i of Inl e \<Rightarrow> Inl e | Inr k \<Rightarrow> Inr (PScalar (xs ! k)))
      | NpNone \<Rightarrow> Inr (PRow xs)
      | NpSlice start stop step \<Rightarrow>
          (case getslice xs start stop step of Inl e \<Rightarrow> Inl e | Inr ys \<Rightarrow> Inr (PArr ys)))"

text \<open>
  \<^verbatim>\<open>
  def create_sliced(self, np_indices):
      parameter_array = np.asarray(self.paramvals_list, dtype=object).copy()
      for index, np_index in enumerate(np_indices):
          parameter_array[index] = parameter_array[index][np_index]
      reduced_paramvals_by_name = {}
      for index, name in enumerate(self.paramnames_list):
          paramvals = parameter_array[index]
          if isinstance(paramvals, ndarray) and len(paramvals) > 1:
              reduced_paramvals_by_name[name] = paramvals
      return Parameters(reduced_paramvals_by_name)
  \<close>
  \<^verbatim>\<open>np.asarray(seq, dtype=object)\<close> of a list of one-dimensional arrays depends on their
  lengths. When the list is not empty and all lengths are equal, say \<open>L\<close>, numpy builds
  one two-dimensional array of shape \<open>(n, L)\<close>; otherwise it builds a one-dimensional
  array of \<open>n\<close> objects, each of them one of the arrays.

  \<^item> In the one-dimensional case \<^verbatim>\<open>parameter_array[index] = ...\<close> stores the indexed
    object (a scalar or an array) in the slot: \<open>slice_each\<close>.
  \<^item> In the two-dimensional case \<^verbatim>\<open>parameter_array[index]\<close> is row \<open>index\<close>, and
    the assignment copies the indexed value into that row by broadcasting, so the row keeps
    its length \<open>L\<close>: a scalar fills the row, an array of length \<open>L\<close> replaces it, an
    array of length 1 fills it, and any other length raises \<^verbatim>\<open>ValueError\<close>; a
    leading axis of length 1 of the assigned value is dropped first
    (\<open>broadcast_row\<close>, \<open>slice_rows\<close>).

  In both cases \<^verbatim>\<open>parameter_array[index]\<close> raises \<^verbatim>\<open>IndexError\<close> when \<open>np_indices\<close>
  has more entries than there are axes. The loop visits positions \<open>0, 1, 2, \<dots>\<close> in
  order, each once, so it is a recursion over both lists together.
\<close>

definition rectangular :: "rat list list \<Rightarrow> bool" where
  "rectangular pvl =
     (case pvl of [] \<Rightarrow> False | v # rest \<Rightarrow> list_all (\<lambda>w. length w = length v) rest)"

fun slice_each :: "rat list list \<Rightarrow> npindex list \<Rightarrow> error + pobj list" where
  "slice_each vs [] = Inr (map PArr vs)"
| "slice_each [] (np_index # rest) = Inl IndexError"
| "slice_each (v # vs) (np_index # rest) =
     (case index1d v np_index of
        Inl e \<Rightarrow> Inl e
      | Inr r \<Rightarrow> (case slice_each vs rest of Inl e \<Rightarrow> Inl e | Inr rs \<Rightarrow> Inr (r # rs)))"

definition broadcast_row :: "nat \<Rightarrow> pobj \<Rightarrow> error + rat list" where
  "broadcast_row L val =
     (case val of
        PScalar x \<Rightarrow> Inr (replicate L x)
      | PArr ys \<Rightarrow>
          (if length ys = L then Inr ys
           else if length ys = 1 then Inr (replicate L (ys ! 0))
           else Inl ValueError)
      | PRow ys \<Rightarrow>
          (if length ys = L then Inr ys
           else if length ys = 1 then Inr (replicate L (ys ! 0))
           else Inl ValueError))"

fun slice_rows :: "rat list list \<Rightarrow> npindex list \<Rightarrow> error + pobj list" where
  "slice_rows vs [] = Inr (map PArr vs)"
| "slice_rows [] (np_index # rest) = Inl IndexError"
| "slice_rows (v # vs) (np_index # rest) =
     (case index1d v np_index of
        Inl e \<Rightarrow> Inl e
      | Inr r \<Rightarrow>
          (case broadcast_row (length v) r of
             Inl e \<Rightarrow> Inl e
           | Inr row \<Rightarrow>
               (case slice_rows vs rest of Inl e \<Rightarrow> Inl e | Inr rs \<Rightarrow> Inr (PArr row # rs))))"

text \<open>
  \<^verbatim>\<open>isinstance(paramvals, ndarray) and len(paramvals) > 1\<close>: a scalar is no array, and
  the length of a two-dimensional array with one row is 1. \<open>parameter_array\<close> has one
  entry per name of \<^verbatim>\<open>paramnames_list\<close>, so the second loop never reads out of range.
\<close>

definition kept_paramvals :: "pobj \<Rightarrow> rat list option" where
  "kept_paramvals paramvals =
     (case paramvals of
        PScalar x \<Rightarrow> None
      | PArr ys \<Rightarrow> (if 1 < length ys then Some ys else None)
      | PRow ys \<Rightarrow> None)"

fun reduced_items :: "string list \<Rightarrow> pobj list \<Rightarrow> (string \<times> rat list) list" where
  "reduced_items (nm # names) (paramvals # rest) =
     (case kept_paramvals paramvals of
        Some ys \<Rightarrow> (nm, ys) # reduced_items names rest
      | None \<Rightarrow> reduced_items names rest)"
| "reduced_items names parameter_array = []"

definition create_sliced :: "Parameters \<Rightarrow> npindex list \<Rightarrow> error + Parameters" where
  "create_sliced ps np_indices =
     (case paramvals_list ps of
        Inl e \<Rightarrow> Inl e
      | Inr pvl \<Rightarrow>
          (case (if rectangular pvl then slice_rows pvl np_indices
                 else slice_each pvl np_indices) of
             Inl e \<Rightarrow> Inl e
           | Inr parameter_array \<Rightarrow>
               Parameters_init
                 (dict_of_items (reduced_items (paramnames_list ps) parameter_array)) None))"

section \<open>Classifying one index entry: class \<^verbatim>\<open>GIndexObject\<close>\<close>

text \<open>
  A component of a slice object as written by the caller (\<^verbatim>\<open>GSliceEntry\<close>), and a raw
  index entry (\<^verbatim>\<open>GIndex\<close>). \<open>EStr\<close> and \<open>ENone\<close> stand for entries that are neither a
  number nor a slice.
\<close>

datatype sentry = SNone | SInt int | SFloat rat | SComplex rat rat | SStr string

datatype gentry =
    EInt int
  | EFloat rat
  | EComplex rat rat
  | EStr string
  | ENone
  | ESlice sentry sentry sentry

text \<open>
  The attributes of a \<^verbatim>\<open>GIndexObject\<close>. Its attribute \<^verbatim>\<open>parameters\<close> is the
  \<^verbatim>\<open>Parameters\<close> object of the array that is indexed; the functions below take it as an
  argument. The attribute \<^verbatim>\<open>type\<close> is one of the strings \<^verbatim>\<open>"int"\<close>, \<^verbatim>\<open>"val"\<close>,
  \<^verbatim>\<open>"slice.name"\<close> and \<^verbatim>\<open>"slice"\<close>.
\<close>

record GIndexObject =
  entry :: gentry
  slot :: nat
  name :: "string option"
  gtype :: string
  std_index :: npindex

text \<open>
  \<^verbatim>\<open>
  def std_slice_entry(self, slice_entry):
      if isinstance(slice_entry, (float, complex)):
          return idx_for_value(slice_entry, self.parameters[self.slot])
      if isinstance(slice_entry, int):
          return slice_entry
      if slice_entry is None:
          return None
      raise TypeError("Invalid slice entry: {}".format(slice_entry))
  \<close>
  The value sequence searched is that of the axis at position \<^verbatim>\<open>self.slot\<close>, the position
  of the entry in the index tuple.
\<close>

definition lookup_slot :: "Parameters \<Rightarrow> nat \<Rightarrow> number \<Rightarrow> error + int" where
  "lookup_slot ps sl val =
     (case Parameters_getitem_int ps (int sl) of
        Inl e \<Rightarrow> Inl e
      | Inr param_vals \<Rightarrow>
          (case idx_for_value val param_vals of
             Inl e \<Rightarrow> Inl e
           | Inr location \<Rightarrow> Inr (int location)))"

definition std_slice_entry :: "Parameters \<Rightarrow> nat \<Rightarrow> sentry \<Rightarrow> error + int option" where
  "std_slice_entry ps sl slice_entry =
     (case slice_entry of
        SFloat v \<Rightarrow>
          (case lookup_slot ps sl (PyFloat v) of Inl e \<Rightarrow> Inl e | Inr i \<Rightarrow> Inr (Some i))
      | SComplex re im \<Rightarrow>
          (case lookup_slot ps sl (PyComplex re im) of Inl e \<Rightarrow> Inl e | Inr i \<Rightarrow> Inr (Some i))
      | SInt i \<Rightarrow> Inr (Some i)
      | SNone \<Rightarrow> Inr None
      | SStr s \<Rightarrow> Inl TypeError)"

text \<open>
  \<^verbatim>\<open>GIndexObject.std(entry)\<close>, returning the name it stores in \<^verbatim>\<open>self.name\<close> together
  with the pair \<^verbatim>\<open>(type, std_index)\<close>. For a name-based slice \<^verbatim>\<open>slice(name, a, b)\<close> the
  components \<open>a\<close> and \<open>b\<close> are the start and the stop of the result; there is no step.
\<close>

definition std ::
  "Parameters \<Rightarrow> nat \<Rightarrow> gentry \<Rightarrow> error + (string option \<times> string \<times> npindex)" where
  "std ps sl ent =
     (case ent of
        EInt i \<Rightarrow> Inr (None, ''int'', NpInt i)
      | EFloat v \<Rightarrow>
          (case lookup_slot ps sl (PyFloat v) of
             Inl e \<Rightarrow> Inl e
           | Inr i \<Rightarrow> Inr (None, ''val'', NpInt i))
      | EComplex re im \<Rightarrow>
          (case lookup_slot ps sl (PyComplex re im) of
             Inl e \<Rightarrow> Inl e
           | Inr i \<Rightarrow> Inr (None, ''val'', NpInt i))
      | ESlice (SStr nm) estop estep \<Rightarrow>
          (case std_slice_entry ps sl estop of
             Inl e \<Rightarrow> Inl e
           | Inr start \<Rightarrow>
               (case std_slice_entry ps sl estep of
                  Inl e \<Rightarrow> Inl e
                | Inr None \<Rightarrow>
                    Inr (Some nm, ''slice.name'',
                         (case start of None \<Rightarrow> NpNone | Some i \<Rightarrow> NpInt i))
                | Inr (Some stop) \<Rightarrow>
                    Inr (Some nm, ''slice.name'', NpSlice start (Some stop) None)))
      | ESlice estart estop estep \<Rightarrow>
          (case std_slice_entry ps sl estart of
             Inl e \<Rightarrow> Inl e
           | Inr start \<Rightarrow>
               (case std_slice_entry ps sl estop of
                  Inl e \<Rightarrow> Inl e
                | Inr stop \<Rightarrow>
                    (case estep of
                       SNone \<Rightarrow> Inr (None, ''slice'', NpSlice start stop None)
                     | SInt i \<Rightarrow> Inr (None, ''slice'', NpSlice start stop (Some i))
                     | _ \<Rightarrow> Inl TypeError)))
      | _ \<Rightarrow> Inl TypeError)"

text \<open>\<^verbatim>\<open>GIndexObject.__init__(entry, parameters, slot)\<close>\<close>

definition GIndexObject_init :: "gentry \<Rightarrow> Parameters \<Rightarrow> nat \<Rightarrow> error + GIndexObject" where
  "GIndexObject_init ent ps sl =
     (case std ps sl ent of
        Inl e \<Rightarrow> Inl e
      | Inr (nm, ty, ix) \<Rightarrow>
          Inr \<lparr>entry = ent, slot = sl, name = nm, gtype = ty, std_index = ix\<rparr>)"

section \<open>The dense array\<close>

text \<open>
  The numpy array under a \<^verbatim>\<open>NamedSlotsNdarray\<close>, as nested sequences: an element, or
  the sequence of the sub-arrays along the first axis. Its basic indexing with a tuple of
  standard indices is numpy's: an integer selects a sub-array and removes the axis, a slice
  keeps the axis, \<^verbatim>\<open>None\<close> adds an axis of length 1, and a tuple shorter than the number
  of axes leaves the remaining axes whole.

  An array whose first axis has length 0 has no sub-arrays to show its later axes, so it
  records them: \<open>Array []\<close> is the array of shape \<open>(0)\<close>, and \<open>Empty n rest\<close> the array
  of shape \<open>(0, n, rest\<dots>)\<close>.
\<close>

datatype 'e ndarray = Scalar 'e | Array "'e ndarray list" | Empty nat "nat list"

fun shape :: "'e ndarray \<Rightarrow> nat list" where
  "shape (Scalar x) = []"
| "shape (Array []) = [0]"
| "shape (Array (a # as)) = Suc (length as) # shape a"
| "shape (Empty n rest) = 0 # n # rest"

text \<open>
  The array without elements of a shape that holds a 0 (the only shapes this is used on).
\<close>

fun empty_array :: "nat list \<Rightarrow> 'e ndarray" where
  "empty_array [] = Array []"
| "empty_array (n # rest) =
     (if n = 0 then (case rest of [] \<Rightarrow> Array [] | m # later \<Rightarrow> Empty m later)
      else Array (replicate n (empty_array rest)))"

text \<open>
  The shape that indexing an array of shape \<open>sh\<close> gives, with the checks numpy makes on
  every index whether or not the array has elements: an integer must be within its axis
  (\<^verbatim>\<open>IndexError\<close>), a slice must not have step 0 (\<^verbatim>\<open>ValueError\<close>), and there must be
  an axis for each integer and slice (\<^verbatim>\<open>IndexError\<close>).
\<close>

fun shape_getitem :: "npindex list \<Rightarrow> nat list \<Rightarrow> error + nat list" where
  "shape_getitem [] sh = Inr sh"
| "shape_getitem (NpNone # rest) sh =
     (case shape_getitem rest sh of Inl e \<Rightarrow> Inl e | Inr sh' \<Rightarrow> Inr (1 # sh'))"
| "shape_getitem (NpInt i # rest) [] = Inl IndexError"
| "shape_getitem (NpInt i # rest) (n # sh) =
     (case norm_index n i of Inl e \<Rightarrow> Inl e | Inr k \<Rightarrow> shape_getitem rest sh)"
| "shape_getitem (NpSlice start stop step # rest) [] = Inl IndexError"
| "shape_getitem (NpSlice start stop step # rest) (n # sh) =
     (case slice_indices start stop step n of
        Inl e \<Rightarrow> Inl e
      | Inr (b, e, st) \<Rightarrow>
          (case shape_getitem rest sh of
             Inl e \<Rightarrow> Inl e
           | Inr sh' \<Rightarrow> Inr (length (py_range b e st) # sh')))"

text \<open>
  \<^verbatim>\<open>ndarray.__getitem__\<close> with a tuple of standard indices. Where a slice selects no
  sub-array, or the first axis has length 0, the remaining indices are checked against the
  remaining axes and the result is the array without elements of the resulting shape.
\<close>

primrec ndarray_getitem :: "npindex list \<Rightarrow> 'e ndarray \<Rightarrow> error + 'e ndarray" where
  "ndarray_getitem [] = (\<lambda>a. Inr a)"
| "ndarray_getitem (np_index # rest) =
     (\<lambda>a. case np_index of
        NpNone \<Rightarrow>
          (case ndarray_getitem rest a of Inl e \<Rightarrow> Inl e | Inr r \<Rightarrow> Inr (Array [r]))
      | NpInt i \<Rightarrow>
          (case a of
             Scalar x \<Rightarrow> Inl IndexError
           | Array xs \<Rightarrow>
               (case norm_index (length xs) i of
                  Inl e \<Rightarrow> Inl e
                | Inr k \<Rightarrow> ndarray_getitem rest (xs ! k))
           | Empty n later \<Rightarrow> Inl IndexError)
      | NpSlice start stop step \<Rightarrow>
          (case a of
             Scalar x \<Rightarrow> Inl IndexError
           | Array xs \<Rightarrow>
               (case getslice xs start stop step of
                  Inl e \<Rightarrow> Inl e
                | Inr ys \<Rightarrow>
                    (if ys = [] then
                       (case shape_getitem rest (tl (shape a)) of
                          Inl e \<Rightarrow> Inl e
                        | Inr sh \<Rightarrow> Inr (empty_array (0 # sh)))
                     else
                       (case try_map (ndarray_getitem rest) ys of
                          Inl e \<Rightarrow> Inl e
                        | Inr zs \<Rightarrow> Inr (Array zs))))
           | Empty n later \<Rightarrow>
               (case slice_indices start stop step 0 of
                  Inl e \<Rightarrow> Inl e
                | Inr bounds \<Rightarrow>
                    (case shape_getitem rest (n # later) of
                       Inl e \<Rightarrow> Inl e
                     | Inr sh \<Rightarrow> Inr (empty_array (0 # sh))))))"

section \<open>The labelled array: class \<^verbatim>\<open>NamedSlotsNdarray\<close>\<close>

text \<open>
  A \<^verbatim>\<open>NamedSlotsNdarray\<close> is a numpy array with the attribute \<^verbatim>\<open>parameters\<close>. (Its
  second attribute \<^verbatim>\<open>data_callback\<close> is set to \<^verbatim>\<open>None\<close> by the constructor, copied by
  \<^verbatim>\<open>__array_finalize__\<close> and never read in this file.)
\<close>

record 'e NamedSlotsNdarray =
  data :: "'e ndarray"
  parameters :: Parameters

text \<open>
  \<^verbatim>\<open>NamedSlotsNdarray.__new__(cls, input_array, values_by_name)\<close>: the leading dimensions
  of the array must be the lengths of the value sequences, or \<^verbatim>\<open>ValueError\<close> is raised.
\<close>

definition NamedSlotsNdarray_new ::
  "'e ndarray \<Rightarrow> (string \<times> rat list) list \<Rightarrow> error + 'e NamedSlotsNdarray" where
  "NamedSlotsNdarray_new input_array values_by_name =
     (let implied_shape = map (\<lambda>(nm, vals). length vals) values_by_name
      in if take (length values_by_name) (shape input_array) \<noteq> implied_shape
         then Inl ValueError
         else (case Parameters_init values_by_name None of
                 Inl e \<Rightarrow> Inl e
               | Inr ps \<Rightarrow> Inr \<lparr>data = input_array, parameters = ps\<rparr>))"

text \<open>
  \<^verbatim>\<open>__array_finalize__(self, obj)\<close>: numpy calls it on every new view \<^verbatim>\<open>self\<close> taken
  from the array \<^verbatim>\<open>obj\<close>; the view receives the \<^verbatim>\<open>parameters\<close> of \<^verbatim>\<open>obj\<close>.
\<close>

definition array_finalize :: "'e ndarray \<Rightarrow> 'e NamedSlotsNdarray \<Rightarrow> 'e NamedSlotsNdarray" where
  "array_finalize view obj = \<lparr>data = view, parameters = parameters obj\<rparr>"

text \<open>
  The result of \<^verbatim>\<open>__getitem__\<close>: an element of the array, or a \<^verbatim>\<open>NamedSlotsNdarray\<close>.
  \<^verbatim>\<open>super().__getitem__(np_indices)\<close> is numpy's indexing; a result that is an array is a
  view of the class, finalized from \<^verbatim>\<open>self\<close>.
\<close>

datatype 'e item = Element 'e | View "'e NamedSlotsNdarray"

definition super_getitem :: "'e NamedSlotsNdarray \<Rightarrow> npindex list \<Rightarrow> error + 'e item" where
  "super_getitem self np_indices =
     (case ndarray_getitem np_indices (data self) of
        Inl e \<Rightarrow> Inl e
      | Inr (Scalar x) \<Rightarrow> Inr (Element x)
      | Inr r \<Rightarrow> Inr (View (array_finalize r self)))"

text \<open>The property \<^verbatim>\<open>slot_count\<close>.\<close>

definition slot_count :: "'e NamedSlotsNdarray \<Rightarrow> nat" where
  "slot_count self = length (paramvals_by_name (parameters self))"

text \<open>
  \<^verbatim>\<open>
  def _name_based_to_std_index_tuple(self, multi_index):
      converted_multi_index = [slice(None)] * self.slot_count
      for gidx_object in multi_index:
          if gidx_object.type != "slice.name":
              raise TypeError("If one index is name-based, all indices must be.")
          slot_index = self.parameters.index_by_name[gidx_object.name]
          converted_multi_index[slot_index] = gidx_object.std_index
      return tuple(converted_multi_index)
  \<close>
\<close>

fun convert_name_based ::
  "Parameters \<Rightarrow> npindex list \<Rightarrow> GIndexObject list \<Rightarrow> error + npindex list" where
  "convert_name_based ps converted_multi_index [] = Inr converted_multi_index"
| "convert_name_based ps converted_multi_index (gidx_object # rest) =
     (if gtype gidx_object \<noteq> ''slice.name'' then Inl TypeError
      else (case name gidx_object of
              None \<Rightarrow> Inl KeyError
            | Some nm \<Rightarrow>
                (case dict_get (index_by_name ps) nm of
                   Inl e \<Rightarrow> Inl e
                 | Inr slot_index \<Rightarrow>
                     if slot_index < length converted_multi_index
                     then convert_name_based ps
                            (converted_multi_index[slot_index := std_index gidx_object]) rest
                     else Inl IndexError)))"

definition name_based_to_std_index_tuple ::
  "'e NamedSlotsNdarray \<Rightarrow> GIndexObject list \<Rightarrow> error + npindex list" where
  "name_based_to_std_index_tuple self multi_index =
     convert_name_based (parameters self)
       (replicate (slot_count self) (NpSlice None None None)) multi_index"

text \<open>
  \<^verbatim>\<open>
  def _to_std_index_tuple(self, multi_index):
      first_gidx = multi_index[0]
      if first_gidx.type == "slice.name":  # if one is name based, all must be
          return self._name_based_to_std_index_tuple(multi_index)
      return tuple(gidx.std_index for gidx in multi_index)
  \<close>
\<close>

definition to_std_index_tuple ::
  "'e NamedSlotsNdarray \<Rightarrow> GIndexObject list \<Rightarrow> error + npindex list" where
  "to_std_index_tuple self multi_index =
     (case multi_index of
        [] \<Rightarrow> Inl IndexError
      | first_gidx # rest \<Rightarrow>
          if gtype first_gidx = ''slice.name''
          then name_based_to_std_index_tuple self multi_index
          else Inr (map std_index multi_index))"

text \<open>
  The index expression handed to \<^verbatim>\<open>__getitem__\<close>: one entry, or a tuple of entries.
  \<^verbatim>\<open>
  def __getitem__(self, multi_index):
      if isinstance(multi_index, int):
          return super().__getitem__(multi_index)
      if not isinstance(multi_index, tuple):
          multi_index = (multi_index,)
      gidx_obj_tuple = tuple(GIndexObject(entry, self.parameters, slot=slot_index)
                             for slot_index, entry in enumerate(multi_index))
      np_indices = self._to_std_index_tuple(gidx_obj_tuple)
      obj = super().__getitem__(np_indices)
      if isinstance(obj, NamedSlotsNdarray):
          obj.parameters = self.parameters.create_sliced(np_indices)
      return obj
  \<close>
\<close>

datatype gindices = Single gentry | Tuple "gentry list"

definition getitem :: "'e NamedSlotsNdarray \<Rightarrow> gindices \<Rightarrow> error + 'e item" where
  "getitem self multi_index =
     (case multi_index of
        Single (EInt i) \<Rightarrow> super_getitem self [NpInt i]
      | _ \<Rightarrow>
          (let entries = (case multi_index of Tuple es \<Rightarrow> es | Single e \<Rightarrow> [e])
           in case try_map (\<lambda>(slot_index, ent). GIndexObject_init ent (parameters self) slot_index)
                     (enumerate 0 entries) of
                Inl e \<Rightarrow> Inl e
              | Inr gidx_obj_tuple \<Rightarrow>
                  (case to_std_index_tuple self gidx_obj_tuple of
                     Inl e \<Rightarrow> Inl e
                   | Inr np_indices \<Rightarrow>
                       (case super_getitem self np_indices of
                          Inl e \<Rightarrow> Inl e
                        | Inr (Element x) \<Rightarrow> Inr (Element x)
                        | Inr (View obj) \<Rightarrow>
                            (case create_sliced (parameters self) np_indices of
                               Inl e \<Rightarrow> Inl e
                             | Inr ps \<Rightarrow> Inr (View (obj\<lparr>parameters := ps\<rparr>)))))))"

section \<open>Serialization\<close>

text \<open>
  \<^verbatim>\<open>ndarray.tolist()\<close> gives the nested Python lists of the elements, and
  \<^verbatim>\<open>np.asarray(nested, dtype=object)\<close> the array of a nested list. The list of an array
  whose first axis has length 0 is \<^verbatim>\<open>[]\<close>, whatever its later axes are, and the array of
  \<^verbatim>\<open>[]\<close> has shape \<open>(0)\<close>.
\<close>

datatype 'e pyobj = PyVal 'e | PyList "'e pyobj list"

fun tolist :: "'e ndarray \<Rightarrow> 'e pyobj" where
  "tolist (Scalar x) = PyVal x"
| "tolist (Array xs) = PyList (map tolist xs)"
| "tolist (Empty n rest) = PyList []"

fun asarray :: "'e pyobj \<Rightarrow> 'e ndarray" where
  "asarray (PyVal x) = Scalar x"
| "asarray (PyList xs) = Array (map asarray xs)"

text \<open>
  The \<^verbatim>\<open>IOData\<close> record that \<^verbatim>\<open>serialize\<close> builds: the type name and the two entries
  of its \<^verbatim>\<open>objects\<close> dictionary (\<^verbatim>\<open>io_attributes\<close> and \<^verbatim>\<open>io_ndarrays\<close> are \<^verbatim>\<open>None\<close>).
\<close>

record 'e IOData =
  typename :: string
  input_array :: "'e pyobj"
  values_by_name :: "(string \<times> rat list) list"

definition serialize :: "'e NamedSlotsNdarray \<Rightarrow> 'e IOData" where
  "serialize self =
     \<lparr>typename = ''NamedSlotsNdarray'',
      input_array = tolist (data self),
      values_by_name = paramvals_by_name (parameters self)\<rparr>"

definition deserialize :: "'e IOData \<Rightarrow> error + 'e NamedSlotsNdarray" where
  "deserialize io_data =
     NamedSlotsNdarray_new (asarray (input_array io_data)) (values_by_name io_data)"

section \<open>Example inputs\<close>

text \<open>
  The axis of the class docstring, \<^verbatim>\<open>'param1': [-4.4, -0.1, 0.3, 10.0]\<close>, and the
  \<^verbatim>\<open>Parameters\<close> object the constructor builds from it.
\<close>

definition param1_axes :: "(string \<times> rat list) list" where
  "param1_axes = [(''param1'', [-22/5, -1/10, 3/10, 10])]"

definition param1_parameters :: Parameters where
  "param1_parameters =
     \<lparr>paramnames_list = [''param1''],
      paramvals_by_name = param1_axes,
      index_by_name = [(''param1'', 0)],
      name_by_index = [(0, ''param1'')],
      paramvals_by_index = [(0, [-22/5, -1/10, 3/10, 10])]\<rparr>"

text \<open>
  The two axes of the docstring's name-based example,
  \<^verbatim>\<open>'ng': [-0.1, 0.0, 0.1, 0.2]\<close> and \<^verbatim>\<open>'flux': [-1.0, -0.5, 0.0, 0.5, 1.0]\<close>, with an
  array of shape \<open>(4, 5)\<close> over them whose element at \<open>(i, j)\<close> is \<open>10 i + j\<close>.
\<close>

definition ng_vals :: "rat list" where
  "ng_vals = [-1/10, 0, 1/10, 1/5]"

definition flux_vals :: "rat list" where
  "flux_vals = [-1, -1/2, 0, 1/2, 1]"

definition ng_flux_axes :: "(string \<times> rat list) list" where
  "ng_flux_axes = [(''ng'', ng_vals), (''flux'', flux_vals)]"

definition ng_flux_parameters :: Parameters where
  "ng_flux_parameters =
     \<lparr>paramnames_list = [''ng'', ''flux''],
      paramvals_by_name = ng_flux_axes,
      index_by_name = [(''ng'', 0), (''flux'', 1)],
      name_by_index = [(0, ''ng''), (1, ''flux'')],
      paramvals_by_index = [(0, ng_vals), (1, flux_vals)]\<rparr>"

definition row_of :: "int \<Rightarrow> int ndarray" where
  "row_of i = Array (map (\<lambda>j. Scalar (10 * i + j)) [0, 1, 2, 3, 4])"

definition ng_flux_data :: "int ndarray" where
  "ng_flux_data = Array (map row_of [0, 1, 2, 3])"

definition ng_flux_array :: "int NamedSlotsNdarray" where
  "ng_flux_array = \<lparr>data = ng_flux_data, parameters = ng_flux_parameters\<rparr>"

definition param1_array :: "int NamedSlotsNdarray" where
  "param1_array =
     \<lparr>data = Array [Scalar 10, Scalar 20, Scalar 30, Scalar 40],
      parameters = param1_parameters\<rparr>"

text \<open>The first row of that array, as indexing with the bare integer 0 returns it.\<close>

definition ng_flux_row :: "int NamedSlotsNdarray" where
  "ng_flux_row = \<lparr>data = row_of 0, parameters = ng_flux_parameters\<rparr>"

text \<open>Two axes of equal length, and one axis without values.\<close>

definition square_axes :: "(string \<times> rat list) list" where
  "square_axes = [(''a'', [1, 2]), (''b'', [3, 4])]"

definition square_parameters :: Parameters where
  "square_parameters =
     \<lparr>paramnames_list = [''a'', ''b''],
      paramvals_by_name = square_axes,
      index_by_name = [(''a'', 0), (''b'', 1)],
      name_by_index = [(0, ''a''), (1, ''b'')],
      paramvals_by_index = [(0, [1, 2]), (1, [3, 4])]\<rparr>"


text \<open>
  An array of shape \<open>(2, 3, 2)\<close> whose two leading axes are named: axis \<^verbatim>\<open>a\<close> of
  length 2 and axis \<^verbatim>\<open>b\<close> of length 3. Its element at \<open>(i, j, k)\<close> is
  \<open>100 i + 10 j + k\<close>.
\<close>

definition cube_axes :: "(string \<times> rat list) list" where
  "cube_axes = [(''a'', [0, 1]), (''b'', [0, 1, 2])]"

definition cube_data :: "int ndarray" where
  "cube_data =
     Array (map (\<lambda>i. Array (map (\<lambda>j. Array [Scalar (100 * i + 10 * j), Scalar (100 * i + 10 * j + 1)])
                                [0, 1, 2]))
                [0, 1])"

definition cube_array :: "int NamedSlotsNdarray" where
  "cube_array =
     \<lparr>data = cube_data,
      parameters =
        \<lparr>paramnames_list = [''a'', ''b''],
         paramvals_by_name = cube_axes,
         index_by_name = [(''a'', 0), (''b'', 1)],
         name_by_index = [(0, ''a''), (1, ''b'')],
         paramvals_by_index = [(0, [0, 1]), (1, [0, 1, 2])]\<rparr>\<rparr>"

text \<open>
  An array of shape \<open>(0, 5)\<close> over an axis \<^verbatim>\<open>a\<close> without values and an axis \<^verbatim>\<open>b\<close> of
  five values.
\<close>

definition zero_rows_axes :: "(string \<times> rat list) list" where
  "zero_rows_axes = [(''a'', []), (''b'', [1, 2, 3, 4, 5])]"

definition zero_rows_array :: "int NamedSlotsNdarray" where
  "zero_rows_array =
     \<lparr>data = Empty 5 [],
      parameters =
        \<lparr>paramnames_list = [''a'', ''b''],
         paramvals_by_name = zero_rows_axes,
         index_by_name = [(''a'', 0), (''b'', 1)],
         name_by_index = [(0, ''a''), (1, ''b'')],
         paramvals_by_index = [(0, []), (1, [1, 2, 3, 4, 5])]\<rparr>\<rparr>"

section \<open>Auxiliary notions for the proofs\<close>

text \<open>
  Position \<open>k\<close> holds the first occurrence of the least element of \<open>ds\<close>: what
  \<^verbatim>\<open>argmin\<close> returns, stated with indices.
\<close>

definition first_min :: "rat list \<Rightarrow> nat \<Rightarrow> bool" where
  "first_min ds k =
     (k < length ds \<and> (\<forall>j<length ds. ds ! k \<le> ds ! j) \<and> (\<forall>j<k. ds ! k < ds ! j))"

text \<open>
  A raw entry that is a plain integer or a standard slice (all three components integers
  or \<^verbatim>\<open>None\<close>), with the numpy index it denotes; the array a result of
  \<^verbatim>\<open>__getitem__\<close> holds.
\<close>

fun plain_component :: "sentry \<Rightarrow> int option option" where
  "plain_component SNone = Some None"
| "plain_component (SInt i) = Some (Some i)"
| "plain_component s = None"

fun plain_index :: "gentry \<Rightarrow> npindex option" where
  "plain_index (EInt i) = Some (NpInt i)"
| "plain_index (ESlice a b c) =
     (case (plain_component a, plain_component b, plain_component c) of
        (Some start, Some stop, Some step) \<Rightarrow> Some (NpSlice start stop step)
      | _ \<Rightarrow> None)"
| "plain_index e = None"

fun item_array :: "'e item \<Rightarrow> 'e ndarray" where
  "item_array (Element x) = Scalar x"
| "item_array (View v) = data v"

text \<open>
  No axis of length 0 of the array is followed by a further axis: the nested list of the
  array then shows its whole shape.
\<close>

primrec tolist_keeps_shape :: "'e ndarray \<Rightarrow> bool" where
  "tolist_keeps_shape (Scalar x) = True"
| "tolist_keeps_shape (Array xs) = list_all (\<lambda>b. b) (map tolist_keeps_shape xs)"
| "tolist_keeps_shape (Empty n rest) = False"

section \<open>Properties of the nearest-value lookup\<close>

lemma argmin_from_first_min:
  "drop i ds = xs \<Longrightarrow> bi < i \<Longrightarrow> i \<le> length ds \<Longrightarrow> (\<forall>j<i. ds ! bi \<le> ds ! j) \<Longrightarrow>
   (\<forall>j<bi. ds ! bi < ds ! j) \<Longrightarrow> first_min ds (argmin_from xs i (ds ! bi) bi)"
proof (induction xs arbitrary: i bi)
  case Nil
  then have "i = length ds" by simp
  with Nil show ?case by (simp add: first_min_def)
next
  case (Cons x xs)
  from Cons.prems(1) have il: "i < length ds"
    by (metis drop_all linorder_not_less list.distinct(1))
  from Cons.prems(1) il have x: "x = ds ! i"
    by (metis Cons_nth_drop_Suc list.inject)
  from Cons.prems(1) il have d: "drop (Suc i) ds = xs"
    by (metis Cons_nth_drop_Suc list.inject)
  show ?case
  proof (cases "x < ds ! bi")
    case True
    have a: "\<forall>j<Suc i. ds ! i \<le> ds ! j"
      using True x Cons.prems(4) by (auto simp: less_Suc_eq)
    have b: "\<forall>j<i. ds ! i < ds ! j"
      using True x Cons.prems(4) by (metis dual_order.strict_trans1)
    have "first_min ds (argmin_from xs (Suc i) (ds ! i) i)"
      using Cons.IH[OF d _ _ a b] il by simp
    with True x show ?thesis by simp
  next
    case False
    have a: "\<forall>j<Suc i. ds ! bi \<le> ds ! j"
      using False x Cons.prems(4) by (auto simp: less_Suc_eq)
    have "first_min ds (argmin_from xs (Suc i) (ds ! bi) bi)"
      using Cons.IH[OF d _ _ a Cons.prems(5)] il Cons.prems(2) by simp
    with False show ?thesis by simp
  qed
qed

lemma first_min_unique: "first_min ds k \<Longrightarrow> first_min ds k' \<Longrightarrow> k = k'"
  unfolding first_min_def by (metis linorder_neqE_nat not_less)

lemma argmin_first_min: "argmin ds = Inr k \<longleftrightarrow> first_min ds k"
proof (cases ds)
  case Nil
  then show ?thesis by (simp add: argmin_def first_min_def)
next
  case (Cons x xs)
  have "first_min ds (argmin_from xs 1 (ds ! 0) 0)"
    by (rule argmin_from_first_min) (simp_all add: Cons)
  then have fm: "first_min ds (argmin_from xs 1 x 0)" by (simp add: Cons)
  show ?thesis
    using fm first_min_unique by (auto simp: argmin_def Cons)
qed

lemma argmin_empty: "argmin ds = Inl e \<longleftrightarrow> ds = [] \<and> e = ValueError"
  by (auto simp: argmin_def split: list.splits)

lemma nearest_position_first_min:
  "nearest_position vals v k \<longleftrightarrow> first_min (map (\<lambda>x. \<bar>x - v\<bar>) vals) k"
  unfolding nearest_position_def first_min_def list_all_length by auto

text \<open>
  For a real requested value, in exact arithmetic: \<^verbatim>\<open>idx_for_value\<close> returns position
  \<open>k\<close> exactly when \<open>k\<close> is the first position of an element nearest to \<open>v\<close> and that
  element is close to \<open>v\<close>; in every other case it raises \<^verbatim>\<open>ValueError\<close>.
\<close>

lemma idx_for_value_real:
  "(idx_for_value (PyFloat v) vals = Inr k \<longleftrightarrow>
      nearest_position vals v k \<and> isclose (vals ! k) v) \<and>
   (idx_for_value (PyFloat v) vals = Inl ValueError \<or>
      (\<exists>j. idx_for_value (PyFloat v) vals = Inr j))"
proof -
  let ?ds = "map (\<lambda>x. \<bar>x - v\<bar>) vals"
  show ?thesis
  proof (cases "argmin ?ds")
    case (Inl e)
    then have "vals = []" "e = ValueError" using argmin_empty[of ?ds e] by simp_all
    then show ?thesis by (simp add: idx_for_value_def argmin_def nearest_position_def)
  next
    case (Inr loc)
    then have fm: "first_min ?ds loc" by (simp add: argmin_first_min)
    have "nearest_position vals v k \<longleftrightarrow> k = loc"
      using fm first_min_unique nearest_position_first_min by blast
    then show ?thesis using Inr by (auto simp: idx_for_value_def)
  qed
qed

text \<open>
  For a complex requested value \<^verbatim>\<open>idx_for_value\<close> never returns a position: on an axis
  with values \<^verbatim>\<open>math.isclose\<close> raises \<^verbatim>\<open>TypeError\<close>, whatever the values are.
\<close>

lemma idx_for_value_complex:
  "idx_for_value (PyComplex re im) vals = (if vals = [] then Inl ValueError else Inl TypeError)"
  by (cases vals) (simp_all add: idx_for_value_def argmin_def)

text \<open>
  C4, evaluated on the axis \<^verbatim>\<open>[-4.4, -0.1, 0.3, 10.0]\<close> with the complex requested value
  \<^verbatim>\<open>0.3 + 0j\<close>. The closest element is \<^verbatim>\<open>0.3\<close>, at position 2, and it equals the
  requested value; the lookup returns neither that position nor \<^verbatim>\<open>ValueError\<close> but
  raises \<^verbatim>\<open>TypeError\<close>, as an index entry and as a bound of a slice alike. The real value
  \<^verbatim>\<open>0.3\<close> resolves to position 2.
\<close>

theorem complex_value_lookup_raises_TypeError:
  "idx_for_value (PyFloat (3/10)) [-22/5, -1/10, 3/10, 10] = Inr 2 \<and>
   idx_for_value (PyComplex (3/10) 0) [-22/5, -1/10, 3/10, 10] = Inl TypeError \<and>
   GIndexObject_init (EComplex (3/10) 0) param1_parameters 0 = Inl TypeError \<and>
   getitem param1_array (Tuple [EComplex (3/10) 0]) = Inl TypeError \<and>
   getitem param1_array (Tuple [ESlice (SInt 0) (SComplex (3/10) 0) SNone]) = Inl TypeError"
  by code_simp

section \<open>Properties of the containers\<close>

lemma try_map_all_Inr:
  "(\<And>x. x \<in> set xs \<Longrightarrow> f x = Inr (g x)) \<Longrightarrow> try_map f xs = Inr (map g xs)"
  by (induction xs) auto

lemma try_map_Inr_D:
  "try_map f xs = Inr ys \<Longrightarrow> length ys = length xs \<and> (\<forall>i<length xs. f (xs ! i) = Inr (ys ! i))"
proof (induction xs arbitrary: ys)
  case Nil
  then show ?case by simp
next
  case (Cons x xs)
  then show ?case
    by (auto split: sum.splits simp: nth_Cons split: nat.splits)
qed


lemma map_of_dict_set: "map_of (dict_set k v d) = (map_of d)(k \<mapsto> v)"
  by (induction d) (auto simp: fun_eq_iff)

lemma keys_dict_set: "fst ` set (dict_set k v d) = insert k (fst ` set d)"
  by (induction d) auto

lemma dict_set_fresh: "k \<notin> fst ` set d \<Longrightarrow> dict_set k v d = d @ [(k, v)]"
  by (induction d) auto

lemma dict_set_same: "map_of d k = Some v \<Longrightarrow> dict_set k v d = d"
  by (induction d) (auto split: if_splits)

lemma distinct_dict_set: "distinct (map fst d) \<Longrightarrow> distinct (map fst (dict_set k v d))"
  by (induction d) (auto simp: keys_dict_set)

lemma foldl_dict_set_distinct:
  "distinct (map fst d) \<Longrightarrow> distinct (map fst (foldl (\<lambda>d (k, v). dict_set k v d) d items))"
  by (induction items arbitrary: d) (auto simp: distinct_dict_set split: prod.splits)

lemma distinct_dict_of_items: "distinct (map fst (dict_of_items items))"
  unfolding dict_of_items_def by (rule foldl_dict_set_distinct) simp

lemma foldl_dict_set_keys:
  "fst ` set (foldl (\<lambda>d (k, v). dict_set k v d) d items) = fst ` set d \<union> fst ` set items"
  by (induction items arbitrary: d) (simp_all add: keys_dict_set case_prod_beta)

lemma keys_dict_of_items: "fst ` set (dict_of_items items) = fst ` set items"
  unfolding dict_of_items_def by (simp add: foldl_dict_set_keys)

lemma foldl_dict_set_append:
  "distinct (map fst (acc @ d)) \<Longrightarrow> foldl (\<lambda>d (k, v). dict_set k v d) acc d = acc @ d"
proof (induction d arbitrary: acc)
  case Nil
  then show ?case by simp
next
  case (Cons p d)
  obtain k v where p: "p = (k, v)" by (cases p)
  from Cons.prems have fresh: "k \<notin> fst ` set acc" by (auto simp: p)
  have "distinct (map fst ((acc @ [(k, v)]) @ d))" using Cons.prems by (simp add: p)
  from Cons.IH[OF this] show ?case by (simp add: p dict_set_fresh[OF fresh])
qed

lemma dict_of_items_distinct: "distinct (map fst d) \<Longrightarrow> dict_of_items d = d"
  unfolding dict_of_items_def using foldl_dict_set_append[of "[]" d] by simp

lemma dict_get_Inr_iff: "dict_get d k = Inr v \<longleftrightarrow> map_of d k = Some v"
  by (simp add: dict_get_def split: option.splits)


lemma dict_get_key: "k \<in> fst ` set d \<Longrightarrow> dict_get d k = Inr (the (map_of d k))"
  by (cases "map_of d k") (auto simp: dict_get_def map_of_eq_None_iff)

lemma items_of_distinct:
  assumes "distinct (map fst d)"
  shows "map (\<lambda>nm. (nm, the (map_of d nm))) (map fst d) = d"
proof -
  have "map (\<lambda>x. (fst x, the (map_of d (fst x)))) d = map (\<lambda>x. x) d"
    by (rule map_cong) (auto simp: assms)
  then show ?thesis by (simp add: comp_def)
qed

lemma swapped_enumerate_keys: "map fst (map (\<lambda>(i, nm). (nm, i)) (enumerate n xs)) = xs"
  by (induction xs arbitrary: n) auto


lemma try_map_succeeds:
  "(\<And>x. x \<in> set xs \<Longrightarrow> \<exists>y. f x = Inr y) \<Longrightarrow> \<exists>ys. try_map f xs = Inr ys"
proof (induction xs)
  case Nil
  then show ?case by simp
next
  case (Cons x xs)
  from Cons.prems[of x] obtain y where y: "f x = Inr y" by auto
  from Cons.IH Cons.prems obtain ys where ys: "try_map f xs = Inr ys" by auto
  show ?case by (simp add: y ys)
qed

lemma named_items:
  "try_map (\<lambda>nm. case dict_get d nm of Inl e \<Rightarrow> Inl e | Inr vals \<Rightarrow> Inr (nm, vals)) (map fst d)
      = Inr (map (\<lambda>nm. (nm, the (map_of d nm))) (map fst d))"
proof (rule try_map_all_Inr)
  fix x assume "x \<in> set (map fst d)"
  then have "x \<in> fst ` set d" by simp
  then have "dict_get d x = Inr (the (map_of d x))" by (rule dict_get_key)
  then show "(case dict_get d x of Inl e \<Rightarrow> Inl e | Inr vals \<Rightarrow> Inr (x, vals)) = Inr (x, the (map_of d x))"
    by simp
qed

lemma keys_index_by_name:
  "fst ` set (dict_of_items (map (\<lambda>(i, nm). (nm, i)) (enumerate 0 names))) = set names"
proof -
  have "fst ` set (map (\<lambda>(i, nm). (nm, i)) (enumerate 0 names))
        = set (map fst (map (\<lambda>(i, nm). (nm, i)) (enumerate 0 names)))"
    by (simp only: set_map)
  also have "\<dots> = set names" by (simp only: swapped_enumerate_keys)
  finally show ?thesis by (simp only: keys_dict_of_items)
qed

lemma by_index_succeeds:
  assumes "fst ` set od \<subseteq> fst ` set ibn"
  shows "\<exists>ys. try_map (\<lambda>(nm, vals). case dict_get ibn nm of Inl e \<Rightarrow> Inl e | Inr i \<Rightarrow> Inr (i, vals)) od
      = Inr ys"
proof (rule try_map_succeeds)
  fix x assume "x \<in> set od"
  then have "fst x \<in> fst ` set ibn" using assms by auto
  then have "dict_get ibn (fst x) = Inr (the (map_of ibn (fst x)))" by (rule dict_get_key)
  then show "\<exists>y. (case x of (nm, vals) \<Rightarrow> case dict_get ibn nm of Inl e \<Rightarrow> Inl e | Inr i \<Rightarrow> Inr (i, vals)) = Inr y"
    by (cases x) simp
qed

lemma Parameters_init_None:
  "\<exists>ps. Parameters_init d None = Inr ps \<and> paramnames_list ps = map fst d \<and>
        paramvals_by_name ps = dict_of_items (map (\<lambda>nm. (nm, the (map_of d nm))) (map fst d))"
proof -
  let ?names = "map fst d"
  let ?items = "map (\<lambda>nm. (nm, the (map_of d nm))) ?names"
  let ?ibn = "dict_of_items (map (\<lambda>(i, nm). (nm, i)) (enumerate 0 ?names))"
  have a: "fst ` set (dict_of_items ?items) = fst ` set ?items" by (rule keys_dict_of_items)
  have b: "fst ` set ?ibn = set ?names" by (rule keys_index_by_name)
  have c: "fst ` set ?items = set ?names" by (simp add: image_image)
  have "fst ` set (dict_of_items ?items) \<subseteq> fst ` set ?ibn"
    by (simp only: a b c subset_refl)
  from by_index_succeeds[OF this] obtain ys where
    ys: "try_map (\<lambda>(nm, vals). case dict_get ?ibn nm of Inl e \<Rightarrow> Inl e | Inr i \<Rightarrow> Inr (i, vals))
           (dict_of_items ?items) = Inr ys"
    by (erule exE)
  have "Parameters_init d None =
          Inr \<lparr>paramnames_list = ?names, paramvals_by_name = dict_of_items ?items,
               index_by_name = ?ibn, name_by_index = dict_of_items (enumerate 0 ?names),
               paramvals_by_index = dict_of_items ys\<rparr>"
    unfolding Parameters_init_def
    by (simp only: option.case Let_def named_items ys sum.case)
  then show ?thesis by simp
qed

lemma Parameters_init_distinct:
  assumes "distinct (map fst d)"
  shows "\<exists>ps. Parameters_init d None = Inr ps \<and> paramnames_list ps = map fst d \<and>
        paramvals_by_name ps = d"
  using Parameters_init_None[of d] items_of_distinct[OF assms] dict_of_items_distinct[OF assms]
  by simp

lemma try_map_nth:
  "length ys = length xs \<Longrightarrow> (\<And>i. i < length xs \<Longrightarrow> f (xs ! i) = Inr (ys ! i)) \<Longrightarrow>
   try_map f xs = Inr ys"
proof (induction xs arbitrary: ys)
  case Nil
  then show ?case by simp
next
  case (Cons x xs)
  then obtain y ys' where ys: "ys = y # ys'" by (cases ys) auto
  have "f x = Inr y" using Cons.prems(2)[of 0] by (simp add: ys)
  moreover have "try_map f xs = Inr ys'"
  proof (rule Cons.IH)
    show "length ys' = length xs" using Cons.prems(1) by (simp add: ys)
    fix i assume "i < length xs"
    then show "f (xs ! i) = Inr (ys' ! i)" using Cons.prems(2)[of "Suc i"] by (simp add: ys)
  qed
  ultimately show ?case by (simp add: ys)
qed

lemma asarray_tolist: "tolist_keeps_shape a \<Longrightarrow> asarray (tolist a) = a"
  by (induction a) (simp_all add: map_idI list_all_iff)

lemma assign_fixed_keys:
  "assign_fixed d (enumerate k ns) fv = Inr R \<Longrightarrow> fst ` set R = fst ` set d \<union> set ns"
proof (induction ns arbitrary: d k)
  case Nil
  then show ?case by simp
next
  case (Cons n ns)
  from Cons.prems have "assign_fixed (dict_set n (fv ! k) d) (enumerate (Suc k) ns) fv = Inr R"
    by (simp split: if_splits)
  from Cons.IH[OF this] show ?case by (simp add: keys_dict_set)
qed

lemma assign_fixed_distinct:
  "assign_fixed d (enumerate k ns) fv = Inr R \<Longrightarrow> distinct (map fst d) \<Longrightarrow> distinct (map fst R)"
proof (induction ns arbitrary: d k)
  case Nil
  then show ?case by simp
next
  case (Cons n ns)
  from Cons.prems have "assign_fixed (dict_set n (fv ! k) d) (enumerate (Suc k) ns) fv = Inr R"
    by (simp split: if_splits)
  from Cons.IH[OF this] Cons.prems(2) show ?case by (simp add: distinct_dict_set)
qed

lemma assign_fixed_other:
  "assign_fixed d (enumerate k ns) fv = Inr R \<Longrightarrow> nm \<notin> set ns \<Longrightarrow> map_of R nm = map_of d nm"
proof (induction ns arbitrary: d k)
  case Nil
  then show ?case by simp
next
  case (Cons n ns)
  from Cons.prems have "assign_fixed (dict_set n (fv ! k) d) (enumerate (Suc k) ns) fv = Inr R"
    by (simp split: if_splits)
  from Cons.IH[OF this] Cons.prems(2) show ?case by (simp add: map_of_dict_set)
qed

lemma assign_fixed_named:
  "assign_fixed d (enumerate k ns) fv = Inr R \<Longrightarrow> nm \<in> set ns \<Longrightarrow>
   \<exists>i<length ns. ns ! i = nm \<and> k + i < length fv \<and> map_of R nm = Some (fv ! (k + i))"
proof (induction ns arbitrary: d k)
  case Nil
  then show ?case by simp
next
  case (Cons n ns)
  from Cons.prems have k: "k < length fv"
    and rest: "assign_fixed (dict_set n (fv ! k) d) (enumerate (Suc k) ns) fv = Inr R"
    by (simp_all split: if_splits)
  show ?case
  proof (cases "nm \<in> set ns")
    case True
    from Cons.IH[OF rest True] obtain i where
      "i < length ns" "ns ! i = nm" "Suc k + i < length fv" "map_of R nm = Some (fv ! (Suc k + i))"
      by blast
    then have "Suc i < length (n # ns) \<and> (n # ns) ! Suc i = nm \<and> k + Suc i < length fv \<and>
               map_of R nm = Some (fv ! (k + Suc i))"
      by simp
    then show ?thesis by blast
  next
    case False
    with Cons.prems(2) have nm: "nm = n" by simp
    have "map_of R nm = Some (fv ! k)"
      using assign_fixed_other[OF rest False] by (simp add: map_of_dict_set nm)
    then have "0 < length (n # ns) \<and> (n # ns) ! 0 = nm \<and> k + 0 < length fv \<and>
               map_of R nm = Some (fv ! (k + 0))"
      using k nm by simp
    then show ?thesis by blast
  qed
qed

lemma assign_fixed_same:
  "(\<And>i. i < length ns \<Longrightarrow> k + i < length fv \<and> map_of d (ns ! i) = Some (fv ! (k + i))) \<Longrightarrow>
   assign_fixed d (enumerate k ns) fv = Inr d"
proof (induction ns arbitrary: k)
  case Nil
  then show ?case by simp
next
  case (Cons n ns)
  from Cons.prems[of 0] have k: "k < length fv" and n: "map_of d n = Some (fv ! k)" by simp_all
  have "assign_fixed d (enumerate (Suc k) ns) fv = Inr d"
  proof (rule Cons.IH)
    fix i assume "i < length ns"
    then show "Suc k + i < length fv \<and> map_of d (ns ! i) = Some (fv ! (Suc k + i))"
      using Cons.prems[of "Suc i"] by simp
  qed
  then show ?case using k by (simp add: dict_set_same[OF n])
qed

lemma assign_fixed_succeeds:
  "k + length ns \<le> length fv \<Longrightarrow> \<exists>R. assign_fixed d (enumerate k ns) fv = Inr R"
  by (induction ns arbitrary: d k) auto

section \<open>Properties of \<^verbatim>\<open>create_reduced\<close>\<close>

lemma first_value_Inr: "first_value vals = Inr w \<longleftrightarrow> (\<exists>x rest. vals = x # rest \<and> w = [x])"
  by (cases vals) (auto simp: first_value_def)

lemma create_reduced_steps:
  assumes "create_reduced ps ns None = Inr q"
  shows "\<exists>fv items R.
           try_map (\<lambda>nm. case Parameters_getitem_str ps nm of
                            Inl e \<Rightarrow> Inl e | Inr vals \<Rightarrow> first_value vals) ns = Inr fv \<and>
           try_map (\<lambda>nm. case Parameters_getitem_str ps nm of
                            Inl e \<Rightarrow> Inl e | Inr vals \<Rightarrow> Inr (nm, vals)) (paramnames_list ps) = Inr items \<and>
           assign_fixed (dict_of_items items) (enumerate 0 ns) fv = Inr R \<and>
           Parameters_init R None = Inr q"
  using assms unfolding create_reduced_def
  by (simp split: sum.splits)

lemma create_reduced_again:
  assumes "create_reduced ps ns None = Inr q"
  shows "create_reduced q ns None = Inr q"
    and "\<forall>nm\<in>set ns. \<exists>x rest. Parameters_getitem_str ps nm = Inr (x # rest) \<and>
                                 Parameters_getitem_str q nm = Inr [x]"
proof -
  from create_reduced_steps[OF assms] obtain fv items R where
    fv: "try_map (\<lambda>nm. case Parameters_getitem_str ps nm of
                            Inl e \<Rightarrow> Inl e | Inr vals \<Rightarrow> first_value vals) ns = Inr fv" and
    items: "try_map (\<lambda>nm. case Parameters_getitem_str ps nm of
                            Inl e \<Rightarrow> Inl e | Inr vals \<Rightarrow> Inr (nm, vals)) (paramnames_list ps) = Inr items" and
    R: "assign_fixed (dict_of_items items) (enumerate 0 ns) fv = Inr R" and
    q: "Parameters_init R None = Inr q"
    by blast
  have dR: "distinct (map fst R)"
    by (rule assign_fixed_distinct[OF R distinct_dict_of_items])
  from Parameters_init_distinct[OF dR] q
  have names_q: "paramnames_list q = map fst R" and vals_q: "paramvals_by_name q = R"
    by auto
  from try_map_Inr_D[OF fv] have len: "length fv = length ns"
    and fvi: "\<And>i. i < length ns \<Longrightarrow>
       (case Parameters_getitem_str ps (ns ! i) of Inl e \<Rightarrow> Inl e | Inr vals \<Rightarrow> first_value vals)
         = Inr (fv ! i)"
    by auto
  have first: "\<exists>x rest. Parameters_getitem_str ps (ns ! i) = Inr (x # rest) \<and> fv ! i = [x]"
    if "i < length ns" for i
    using fvi[OF that] by (auto split: sum.splits simp: first_value_Inr)
  have same: "fv ! i = fv ! j" if "i < length ns" "j < length ns" "ns ! i = ns ! j" for i j
    using first[OF that(1)] first[OF that(2)] that(3) by auto
  have Rval: "map_of R (ns ! i) = Some (fv ! i)" if "i < length ns" for i
  proof -
    from that have "ns ! i \<in> set ns" by simp
    from assign_fixed_named[OF R this] obtain j where
      "j < length ns" "ns ! j = ns ! i" "map_of R (ns ! i) = Some (fv ! j)" by auto
    with same[OF that, of j] show ?thesis by simp
  qed
  have fv': "try_map (\<lambda>nm. case Parameters_getitem_str q nm of
                            Inl e \<Rightarrow> Inl e | Inr vals \<Rightarrow> first_value vals) ns = Inr fv"
  proof (rule try_map_nth[OF len])
    fix i assume i: "i < length ns"
    from first[OF i] obtain x where "fv ! i = [x]" by blast
    then show "(case Parameters_getitem_str q (ns ! i) of Inl e \<Rightarrow> Inl e | Inr vals \<Rightarrow> first_value vals)
        = Inr (fv ! i)"
      using Rval[OF i] by (simp add: Parameters_getitem_str_def vals_q dict_get_def first_value_def)
  qed
  have items': "try_map (\<lambda>nm. case Parameters_getitem_str q nm of
                            Inl e \<Rightarrow> Inl e | Inr vals \<Rightarrow> Inr (nm, vals)) (paramnames_list q) = Inr R"
    using named_items[of R] items_of_distinct[OF dR]
    by (simp add: Parameters_getitem_str_def vals_q names_q)
  have again: "assign_fixed R (enumerate 0 ns) fv = Inr R"
    by (rule assign_fixed_same) (simp add: Rval len)
  show "create_reduced q ns None = Inr q"
    unfolding create_reduced_def
    by (simp only: option.case fv' items' sum.case dict_of_items_distinct[OF dR] again q)
  show "\<forall>nm\<in>set ns. \<exists>x rest. Parameters_getitem_str ps nm = Inr (x # rest) \<and>
                                 Parameters_getitem_str q nm = Inr [x]"
  proof
    fix nm assume "nm \<in> set ns"
    then obtain i where i: "i < length ns" "ns ! i = nm" by (auto simp: in_set_conv_nth)
    from first[OF i(1)] obtain x rest where
      "Parameters_getitem_str ps (ns ! i) = Inr (x # rest)" "fv ! i = [x]" by blast
    then show "\<exists>x rest. Parameters_getitem_str ps nm = Inr (x # rest) \<and>
                       Parameters_getitem_str q nm = Inr [x]"
      using Rval[OF i(1)] i(2) by (auto simp: Parameters_getitem_str_def vals_q dict_get_def)
  qed
qed

lemma create_reduced_succeeds:
  assumes names: "set (paramnames_list ps) \<subseteq> fst ` set (paramvals_by_name ps)"
    and fixed: "set ns \<subseteq> fst ` set (paramvals_by_name ps)"
    and nonempty: "\<forall>nm\<in>set ns. Parameters_getitem_str ps nm \<noteq> Inr []"
  shows "\<exists>q. create_reduced ps ns None = Inr q"
proof -
  have "\<exists>fv. try_map (\<lambda>nm. case Parameters_getitem_str ps nm of
                            Inl e \<Rightarrow> Inl e | Inr vals \<Rightarrow> first_value vals) ns = Inr fv"
  proof (rule try_map_succeeds)
    fix nm assume nm: "nm \<in> set ns"
    with fixed have "nm \<in> fst ` set (paramvals_by_name ps)" by auto
    from dict_get_key[OF this] obtain vals where
      v: "Parameters_getitem_str ps nm = Inr vals" by (simp add: Parameters_getitem_str_def)
    with nonempty nm have "vals \<noteq> []" by auto
    then obtain x rest where "vals = x # rest" by (cases vals) auto
    then show "\<exists>y. (case Parameters_getitem_str ps nm of Inl e \<Rightarrow> Inl e
                     | Inr vals \<Rightarrow> first_value vals) = Inr y"
      by (simp add: v first_value_def)
  qed
  then obtain fv where fv: "try_map (\<lambda>nm. case Parameters_getitem_str ps nm of
                            Inl e \<Rightarrow> Inl e | Inr vals \<Rightarrow> first_value vals) ns = Inr fv" by blast
  have "\<exists>items. try_map (\<lambda>nm. case Parameters_getitem_str ps nm of
                            Inl e \<Rightarrow> Inl e | Inr vals \<Rightarrow> Inr (nm, vals)) (paramnames_list ps) = Inr items"
  proof (rule try_map_succeeds)
    fix nm assume "nm \<in> set (paramnames_list ps)"
    with names have "nm \<in> fst ` set (paramvals_by_name ps)" by auto
    from dict_get_key[OF this]
    show "\<exists>y. (case Parameters_getitem_str ps nm of Inl e \<Rightarrow> Inl e
                     | Inr vals \<Rightarrow> Inr (nm, vals)) = Inr y"
      by (simp add: Parameters_getitem_str_def)
  qed
  then obtain items where items: "try_map (\<lambda>nm. case Parameters_getitem_str ps nm of
                            Inl e \<Rightarrow> Inl e | Inr vals \<Rightarrow> Inr (nm, vals)) (paramnames_list ps) = Inr items"
    by blast
  from try_map_Inr_D[OF fv] have "0 + length ns \<le> length fv" by simp
  from assign_fixed_succeeds[OF this] obtain R where
    R: "assign_fixed (dict_of_items items) (enumerate 0 ns) fv = Inr R" by blast
  from Parameters_init_None[of R] obtain q where q: "Parameters_init R None = Inr q" by blast
  have "create_reduced ps ns None = Inr q"
    unfolding create_reduced_def by (simp only: option.case fv items sum.case R q)
  then show ?thesis ..
qed

text \<open>
  C9. For every axis set whose listed names all have a value sequence, and every list of
  names of its axes whose value sequences are not empty, \<^verbatim>\<open>create_reduced\<close> without
  fixed values succeeds, applying it again to its result succeeds and returns that same
  result, and each named axis holds the one-element sequence of its first value.
\<close>

theorem create_reduced_idempotent:
  assumes "set (paramnames_list ps) \<subseteq> fst ` set (paramvals_by_name ps)"
    and "set ns \<subseteq> fst ` set (paramvals_by_name ps)"
    and "\<forall>nm\<in>set ns. Parameters_getitem_str ps nm \<noteq> Inr []"
  shows "\<exists>q. create_reduced ps ns None = Inr q \<and> create_reduced q ns None = Inr q \<and>
           (\<forall>nm\<in>set ns. \<exists>x rest. Parameters_getitem_str ps nm = Inr (x # rest) \<and>
                                    Parameters_getitem_str q nm = Inr [x])"
proof -
  from create_reduced_succeeds[OF assms] obtain q where q: "create_reduced ps ns None = Inr q"
    by blast
  from create_reduced_again[OF q] q show ?thesis by blast
qed

theorem create_reduced_idempotent_witness:
  "create_reduced ng_flux_parameters [''flux''] None =
     Inr \<lparr>paramnames_list = [''ng'', ''flux''],
          paramvals_by_name = [(''ng'', ng_vals), (''flux'', [-1])],
          index_by_name = [(''ng'', 0), (''flux'', 1)],
          name_by_index = [(0, ''ng''), (1, ''flux'')],
          paramvals_by_index = [(0, ng_vals), (1, [-1])]\<rparr> \<and>
   (\<exists>q. create_reduced ng_flux_parameters [''flux''] None = Inr q \<and>
        create_reduced q [''flux''] None = Inr q \<and>
        Parameters_getitem_str q ''flux'' = Inr [-1])"
proof -
  have h1: "set (paramnames_list ng_flux_parameters)
              \<subseteq> fst ` set (paramvals_by_name ng_flux_parameters)"
    by (simp add: ng_flux_parameters_def ng_flux_axes_def)
  have h2: "set [''flux''] \<subseteq> fst ` set (paramvals_by_name ng_flux_parameters)"
    by (simp add: ng_flux_parameters_def ng_flux_axes_def)
  have v: "Parameters_getitem_str ng_flux_parameters ''flux'' = Inr [-1, -1/2, 0, 1/2, 1]"
    by (simp add: Parameters_getitem_str_def dict_get_def ng_flux_parameters_def ng_flux_axes_def
        flux_vals_def)
  then have h3: "\<forall>nm\<in>set [''flux'']. Parameters_getitem_str ng_flux_parameters nm \<noteq> Inr []"
    by simp
  from create_reduced_idempotent[OF h1 h2 h3] obtain q where
    q: "create_reduced ng_flux_parameters [''flux''] None = Inr q"
       "create_reduced q [''flux''] None = Inr q"
       "\<forall>nm\<in>set [''flux'']. \<exists>x rest.
          Parameters_getitem_str ng_flux_parameters nm = Inr (x # rest) \<and>
          Parameters_getitem_str q nm = Inr [x]"
    by blast
  from q(3) v have "Parameters_getitem_str q ''flux'' = Inr [-1]" by simp
  with q(1,2) have ex: "\<exists>q. create_reduced ng_flux_parameters [''flux''] None = Inr q \<and>
        create_reduced q [''flux''] None = Inr q \<and>
        Parameters_getitem_str q ''flux'' = Inr [-1]" by blast
  have "create_reduced ng_flux_parameters [''flux''] None =
     Inr \<lparr>paramnames_list = [''ng'', ''flux''],
          paramvals_by_name = [(''ng'', ng_vals), (''flux'', [-1])],
          index_by_name = [(''ng'', 0), (''flux'', 1)],
          name_by_index = [(0, ''ng''), (1, ''flux'')],
          paramvals_by_index = [(0, ng_vals), (1, [-1])]\<rparr>"
    by code_simp
  with ex show ?thesis by (rule conjI[rotated])
qed

section \<open>Indexing with a bare integer\<close>

lemma shape_nonempty_iff: "shape x \<noteq> [] \<longleftrightarrow> (\<forall>v. x \<noteq> Scalar v)"
  by (cases x rule: shape.cases) simp_all

lemma norm_index_in_range:
  "- int n \<le> i \<Longrightarrow> i < int n \<Longrightarrow> \<exists>k<n. norm_index n i = Inr k"
  by (auto simp: norm_index_def)

text \<open>
  C10. When the first axis of the array has an element at the integer \<open>i\<close> (counting
  from the end for a negative \<open>i\<close>) and the sub-arrays along the first axis are arrays
  themselves (the array has at least two dimensions), indexing with the bare integer
  \<open>i\<close> returns the sub-array that numpy selects, an array, carrying the
  \<^verbatim>\<open>parameters\<close> of the source array unchanged: \<^verbatim>\<open>create_sliced\<close> is not applied on this path, so the labels are
  those of the full array and not of the shape of the sub-array.
\<close>

theorem bare_int_keeps_parameters:
  assumes "data self = Array xs" and "- int (length xs) \<le> i" and "i < int (length xs)"
    and "\<forall>x\<in>set xs. shape x \<noteq> []"
  shows "\<exists>sub. ndarray_getitem [NpInt i] (data self) = Inr sub \<and> shape sub \<noteq> [] \<and>
           getitem self (Single (EInt i)) =
             Inr (View \<lparr>data = sub, parameters = parameters self\<rparr>)"
proof -
  from norm_index_in_range[OF assms(2,3)] obtain k where
    k: "k < length xs" "norm_index (length xs) i = Inr k" by blast
  with assms(4) have sh: "shape (xs ! k) \<noteq> []" by simp
  have g: "ndarray_getitem [NpInt i] (data self) = Inr (xs ! k)"
    by (simp add: assms(1) k)
  have "getitem self (Single (EInt i)) =
          Inr (View \<lparr>data = xs ! k, parameters = parameters self\<rparr>)"
    using sh
    by (cases "xs ! k")
      (simp_all add: getitem_def super_getitem_def assms(1) k array_finalize_def)
  with g sh show ?thesis by blast
qed

theorem bare_int_keeps_parameters_witness:
  "ndarray_getitem [NpInt (-1)] (data ng_flux_array) = Inr (row_of 3) \<and>
   getitem ng_flux_array (Single (EInt (-1))) =
     Inr (View \<lparr>data = row_of 3, parameters = ng_flux_parameters\<rparr>) \<and>
   map (\<lambda>(nm, vals). length vals) (paramvals_by_name ng_flux_parameters) = [4, 5] \<and>
   shape (row_of 3) = [5]"
proof -
  have d: "data ng_flux_array = Array (map row_of [0, 1, 2, 3])"
    by (simp add: ng_flux_array_def ng_flux_data_def)
  have s: "\<forall>x\<in>set (map row_of [0, 1, 2, 3]). shape x \<noteq> []"
    by (simp add: row_of_def)
  have "- int (length (map row_of [0, 1, 2, 3])) \<le> - 1" "- 1 < int (length (map row_of [0, 1, 2, 3]))"
    by simp_all
  from bare_int_keeps_parameters[OF d this s] obtain sub where
    sub: "ndarray_getitem [NpInt (- 1)] (data ng_flux_array) = Inr sub"
      "getitem ng_flux_array (Single (EInt (- 1))) =
         Inr (View \<lparr>data = sub, parameters = parameters ng_flux_array\<rparr>)"
    by blast
  have e: "ndarray_getitem [NpInt (- 1)] (data ng_flux_array) = Inr (row_of 3)"
    by (simp add: d norm_index_def)
  with sub(1) have "sub = row_of 3" by simp
  with sub(2) e show ?thesis
    by (simp add: ng_flux_array_def ng_flux_parameters_def ng_flux_axes_def ng_vals_def
        flux_vals_def row_of_def)
qed

section \<open>Value lookup on the axis of the docstring\<close>

text \<open>
  C3, evaluated on the axis \<^verbatim>\<open>[-4.4, -0.1, 0.3, 10.0]\<close> of the class docstring, whose
  example is \<^verbatim>\<open>some_array[0.25, 0:2] --> some_array[2, 0:2]\<close>. The value nearest to
  \<^verbatim>\<open>0.25\<close> is \<^verbatim>\<open>0.3\<close>, at position 2, and \<^verbatim>\<open>Parameters.get_index\<close> returns that
  position; but the entry \<^verbatim>\<open>0.25\<close> does not resolve to it: \<^verbatim>\<open>0.3\<close> is not close to
  \<^verbatim>\<open>0.25\<close> in the sense of \<^verbatim>\<open>math.isclose\<close>, so \<^verbatim>\<open>idx_for_value\<close> raises
  \<^verbatim>\<open>ValueError\<close>.
\<close>

theorem value_lookup_quarter_fails:
  "Parameters_init param1_axes None = Inr param1_parameters \<and>
   nearest_position [-22/5, -1/10, 3/10, 10] (1/4) 2 \<and>
   get_index param1_parameters (1/4) 0 = Inr 2 \<and>
   GIndexObject_init (EFloat (1/4)) param1_parameters 0 = Inl ValueError \<and>
   getitem param1_array (Tuple [EFloat (1/4)]) = Inl ValueError"
  by code_simp

text \<open>
  On the same axis the entry \<^verbatim>\<open>0.3\<close> resolves to position 2, and the entry \<^verbatim>\<open>100.0\<close>
  raises \<^verbatim>\<open>ValueError\<close>.
\<close>

lemma value_lookup_on_param1:
  "GIndexObject_init (EFloat (3/10)) param1_parameters 0 =
     Inr \<lparr>entry = EFloat (3/10), slot = 0, name = None, gtype = ''val'', std_index = NpInt 2\<rparr> \<and>
   getitem param1_array (Tuple [EFloat (3/10)]) = Inr (Element 30) \<and>
   GIndexObject_init (EFloat 100) param1_parameters 0 = Inl ValueError \<and>
   getitem param1_array (Tuple [EFloat 100]) = Inl ValueError"
  by code_simp

section \<open>Name-based slices\<close>

text \<open>
  The result of \<^verbatim>\<open>std\<close> on a name-based slice does not depend on the name: the values
  are looked up on the axis at the position of the entry in the index tuple.
\<close>

lemma std_name_slice_ignores_name:
  "map_sum id (\<lambda>(nm, ty, ix). (ty, ix)) (std ps sl (ESlice (SStr nm1) a b)) =
   map_sum id (\<lambda>(nm, ty, ix). (ty, ix)) (std ps sl (ESlice (SStr nm2) a b))"
  by (simp add: std_def split: sum.splits option.splits)

text \<open>
  C1, evaluated on the docstring's example \<^verbatim>\<open>some_array['flux':0.5]\<close> with the axes
  \<^verbatim>\<open>ng\<close> and \<^verbatim>\<open>flux\<close>. The entry stands at position 0 of the index, so \<^verbatim>\<open>0.5\<close> is
  looked up among the values of \<^verbatim>\<open>ng\<close>, where nothing is close to it, and the lookup
  raises \<^verbatim>\<open>ValueError\<close>; on the axis \<^verbatim>\<open>flux\<close> the value \<^verbatim>\<open>0.5\<close> is at position 3. The
  entry \<^verbatim>\<open>'flux':0.0\<close> resolves to position 1, where \<^verbatim>\<open>ng\<close> holds \<^verbatim>\<open>0.0\<close>, although
  \<^verbatim>\<open>flux\<close> holds \<^verbatim>\<open>0.0\<close> at position 2, and the array returned is the column of
  \<^verbatim>\<open>flux = -0.5\<close>.
\<close>

theorem name_slice_looks_up_slot_axis:
  "NamedSlotsNdarray_new ng_flux_data ng_flux_axes = Inr ng_flux_array \<and>
   idx_for_value (PyFloat (1/2)) flux_vals = Inr 3 \<and>
   GIndexObject_init (ESlice (SStr ''flux'') (SFloat (1/2)) SNone) ng_flux_parameters 0
     = Inl ValueError \<and>
   getitem ng_flux_array (Single (ESlice (SStr ''flux'') (SFloat (1/2)) SNone)) = Inl ValueError \<and>
   idx_for_value (PyFloat 0) flux_vals = Inr 2 \<and>
   idx_for_value (PyFloat 0) ng_vals = Inr 1 \<and>
   GIndexObject_init (ESlice (SStr ''flux'') (SFloat 0) SNone) ng_flux_parameters 0 =
     Inr \<lparr>entry = ESlice (SStr ''flux'') (SFloat 0) SNone, slot = 0, name = Some ''flux'',
          gtype = ''slice.name'', std_index = NpInt 1\<rparr> \<and>
   getitem ng_flux_array (Single (ESlice (SStr ''flux'') (SFloat 0) SNone)) =
     Inr (View \<lparr>data = Array [Scalar 1, Scalar 11, Scalar 21, Scalar 31],
               parameters =
                 \<lparr>paramnames_list = [''ng''],
                  paramvals_by_name = [(''ng'', ng_vals)],
                  index_by_name = [(''ng'', 0)],
                  name_by_index = [(0, ''ng'')],
                  paramvals_by_index = [(0, ng_vals)]\<rparr>\<rparr>)"
  by code_simp

section \<open>Mixing name-based and positional entries\<close>

text \<open>
  When the first entry is name-based and some entry is not, the conversion raises: it
  reaches the entry that is not name-based and raises \<^verbatim>\<open>TypeError\<close>, unless an earlier
  entry has already raised (\<^verbatim>\<open>KeyError\<close> for a name that is no axis).
\<close>

lemma convert_name_based_mixed:
  "\<exists>g\<in>set gs. gtype g \<noteq> ''slice.name'' \<Longrightarrow> \<exists>e. convert_name_based ps conv gs = Inl e"
proof (induction gs arbitrary: conv)
  case Nil
  then show ?case by simp
next
  case (Cons g gs)
  show ?case
  proof (cases "gtype g \<noteq> ''slice.name''")
    case True
    then show ?thesis by simp
  next
    case False
    with Cons.prems have "\<exists>g\<in>set gs. gtype g \<noteq> ''slice.name''" by auto
    from Cons.IH[OF this] show ?thesis
      using False by (auto split: option.splits sum.splits)
  qed
qed

text \<open>
  When the first entry is not name-based, no entry is inspected: the standard indices
  of all entries are used by position, name-based ones included.
\<close>

lemma to_std_index_tuple_positional_first:
  "gtype g \<noteq> ''slice.name'' \<Longrightarrow>
   to_std_index_tuple self (g # gs) = Inr (std_index g # map std_index gs)"
  by (simp add: to_std_index_tuple_def)

text \<open>
  C2, evaluated on \<^verbatim>\<open>some_array[0, 'flux':1]\<close> with the axes \<^verbatim>\<open>ng\<close> and \<^verbatim>\<open>flux\<close>: the
  first entry is positional and the second is name-based, and no exception is raised.
  The index is converted to \<^verbatim>\<open>(0, 1)\<close> and the element at row 0, column 1 is returned.
  With the entries in the other order the conversion raises \<^verbatim>\<open>TypeError\<close>.
\<close>

theorem mixed_mode_positional_first_accepted:
  "NamedSlotsNdarray_new ng_flux_data ng_flux_axes = Inr ng_flux_array \<and>
   getitem ng_flux_array (Tuple [EInt 0, ESlice (SStr ''flux'') (SInt 1) SNone])
     = Inr (Element 1) \<and>
   getitem ng_flux_array (Tuple [ESlice (SStr ''flux'') (SInt 1) SNone, EInt 0])
     = Inl TypeError"
  by code_simp

section \<open>Construction of \<^verbatim>\<open>Parameters\<close>\<close>





section \<open>Serialization round trip\<close>

lemma NamedSlotsNdarray_new_distinct:
  assumes "distinct (map fst d)"
    and "take (length d) (shape a) = map (\<lambda>(nm, vals). length vals) d"
  shows "\<exists>ps. NamedSlotsNdarray_new a d = Inr \<lparr>data = a, parameters = ps\<rparr> \<and>
              paramnames_list ps = map fst d \<and> paramvals_by_name ps = d"
proof -
  from Parameters_init_distinct[OF assms(1)] obtain ps where
    ps: "Parameters_init d None = Inr ps" "paramnames_list ps = map fst d" "paramvals_by_name ps = d"
    by blast
  have "NamedSlotsNdarray_new a d = Inr \<lparr>data = a, parameters = ps\<rparr>"
    by (simp add: NamedSlotsNdarray_new_def assms(2) ps(1))
  with ps(2,3) show ?thesis by blast
qed

lemma NamedSlotsNdarray_new_mismatch:
  "take (length d) (shape a) \<noteq> map (\<lambda>(nm, vals). length vals) d \<Longrightarrow>
   NamedSlotsNdarray_new a d = Inl ValueError"
  by (simp add: NamedSlotsNdarray_new_def)

text \<open>
  C8, as stated, fails: the row that indexing with the bare integer 0 returns is a
  \<^verbatim>\<open>NamedSlotsNdarray\<close> of shape \<open>(5)\<close> that carries the two axes of the full array, of
  lengths 4 and 5. Deserializing its serialization runs the constructor's shape check
  and raises \<^verbatim>\<open>ValueError\<close>. So does the round trip of the array of shape \<open>(0, 5)\<close>
  over axes of lengths 0 and 5, which the constructor accepts: its nested list is
  \<^verbatim>\<open>[]\<close>, and the array of \<^verbatim>\<open>[]\<close> has shape \<open>(0)\<close>.
\<close>

theorem roundtrip_of_row_fails:
  "NamedSlotsNdarray_new ng_flux_data ng_flux_axes = Inr ng_flux_array \<and>
   getitem ng_flux_array (Single (EInt 0)) = Inr (View ng_flux_row) \<and>
   deserialize (serialize ng_flux_row) = Inl ValueError \<and>
   NamedSlotsNdarray_new (Empty 5 []) zero_rows_axes = Inr zero_rows_array \<and>
   shape (data zero_rows_array) = [0, 5] \<and>
   shape (asarray (tolist (data zero_rows_array))) = [0] \<and>
   deserialize (serialize zero_rows_array) = Inl ValueError"
  by code_simp

text \<open>
  C8, amended. Take a labelled array none of whose axes of length 0 is followed by a
  further axis, and whose mapping of names to value sequences is a dictionary (its keys
  are distinct). If its leading dimensions are, in order, the lengths of the value
  sequences of its axes, as the constructor requires, then deserializing its serialization
  gives a labelled array with the same data and the same ordered mapping. If they are not,
  deserializing its serialization raises \<^verbatim>\<open>ValueError\<close>.
\<close>

theorem serialize_roundtrip:
  assumes "distinct (map fst (paramvals_by_name (parameters X)))"
    and "tolist_keeps_shape (data X)"
  shows "if take (length (paramvals_by_name (parameters X))) (shape (data X)) =
              map (\<lambda>(nm, vals). length vals) (paramvals_by_name (parameters X))
         then (\<exists>Y. deserialize (serialize X) = Inr Y \<and> data Y = data X \<and>
                    paramvals_by_name (parameters Y) = paramvals_by_name (parameters X))
         else deserialize (serialize X) = Inl ValueError"
proof -
  have d: "deserialize (serialize X) =
             NamedSlotsNdarray_new (data X) (paramvals_by_name (parameters X))"
    by (simp add: deserialize_def serialize_def asarray_tolist[OF assms(2)])
  show ?thesis
  proof (cases "take (length (paramvals_by_name (parameters X))) (shape (data X)) =
              map (\<lambda>(nm, vals). length vals) (paramvals_by_name (parameters X))")
    case True
    from NamedSlotsNdarray_new_distinct[OF assms(1) True] obtain ps where
      ps: "NamedSlotsNdarray_new (data X) (paramvals_by_name (parameters X)) =
             Inr \<lparr>data = data X, parameters = ps\<rparr>"
          "paramvals_by_name ps = paramvals_by_name (parameters X)"
      by blast
    have "deserialize (serialize X) = Inr \<lparr>data = data X, parameters = ps\<rparr>"
      by (simp only: d ps(1))
    with ps(2) True show ?thesis by simp
  next
    case False
    from NamedSlotsNdarray_new_mismatch[OF False] d False show ?thesis by simp
  qed
qed

theorem serialize_roundtrip_witness:
  "deserialize (serialize ng_flux_array) = Inr ng_flux_array \<and>
   deserialize (serialize ng_flux_row) = Inl ValueError"
proof -
  have h1: "distinct (map fst (paramvals_by_name (parameters ng_flux_array)))"
    by (simp add: ng_flux_array_def ng_flux_parameters_def ng_flux_axes_def)
  have k1: "tolist_keeps_shape (data ng_flux_array)"
    by (simp add: ng_flux_array_def ng_flux_data_def row_of_def)
  have h2: "take (length (paramvals_by_name (parameters ng_flux_array))) (shape (data ng_flux_array)) =
           map (\<lambda>(nm, vals). length vals) (paramvals_by_name (parameters ng_flux_array))"
    by (simp add: ng_flux_array_def ng_flux_parameters_def ng_flux_axes_def ng_flux_data_def
        row_of_def ng_vals_def flux_vals_def)
  from serialize_roundtrip[OF h1 k1] h2 obtain Y where
    "deserialize (serialize ng_flux_array) = Inr Y" by auto
  moreover have "deserialize (serialize ng_flux_array) = Inr ng_flux_array" by code_simp
  ultimately have a: "deserialize (serialize ng_flux_array) = Inr ng_flux_array" by simp
  have h1': "distinct (map fst (paramvals_by_name (parameters ng_flux_row)))"
    by (simp add: ng_flux_row_def ng_flux_parameters_def ng_flux_axes_def)
  have k1': "tolist_keeps_shape (data ng_flux_row)"
    by (simp add: ng_flux_row_def row_of_def)
  have h2': "take (length (paramvals_by_name (parameters ng_flux_row))) (shape (data ng_flux_row)) \<noteq>
           map (\<lambda>(nm, vals). length vals) (paramvals_by_name (parameters ng_flux_row))"
    by (simp add: ng_flux_row_def ng_flux_parameters_def ng_flux_axes_def
        row_of_def ng_vals_def flux_vals_def)
  from serialize_roundtrip[OF h1' k1'] h2'
  have b: "deserialize (serialize ng_flux_row) = Inl ValueError" by simp
  from a b show ?thesis by (rule conjI)
qed

section \<open>Properties of \<^verbatim>\<open>create_sliced\<close>\<close>

lemma reduced_items_keys:
  "fst ` set (reduced_items names objs) \<subseteq> set names"
  by (induction names objs rule: reduced_items.induct) (auto split: option.splits)

lemma reduced_items_distinct:
  "distinct names \<Longrightarrow> distinct (map fst (reduced_items names objs))"
proof (induction names objs rule: reduced_items.induct)
  case (1 nm names paramvals rest)
  have "nm \<notin> fst ` set (reduced_items names rest)"
    using reduced_items_keys[of names rest] "1.prems" by auto
  with 1 show ?case by (auto split: option.splits)
qed simp_all

lemma create_sliced_result:
  assumes "paramvals_list ps = Inr pvl"
    and "(if rectangular pvl then slice_rows pvl ixs else slice_each pvl ixs) = Inr objs"
    and "distinct (paramnames_list ps)"
  shows "\<exists>q. create_sliced ps ixs = Inr q \<and>
             paramvals_by_name q = reduced_items (paramnames_list ps) objs"
proof -
  let ?d = "reduced_items (paramnames_list ps) objs"
  have d: "distinct (map fst ?d)" by (rule reduced_items_distinct[OF assms(3)])
  from Parameters_init_distinct[OF d] obtain q where
    q: "Parameters_init ?d None = Inr q" "paramvals_by_name q = ?d" by blast
  have "create_sliced ps ixs = Inr q"
    unfolding create_sliced_def
    by (simp only: assms(1) sum.case assms(2) dict_of_items_distinct[OF d] q(1))
  with q(2) show ?thesis by blast
qed

lemma slice_rows_keeps_length:
  "slice_rows pvl ixs = Inr objs \<Longrightarrow>
   list_all2 (\<lambda>v obj. \<exists>row. obj = PArr row \<and> length row = length v) pvl objs"
proof (induction pvl ixs arbitrary: objs rule: slice_rows.induct)
  case (1 vs)
  then show ?case by (auto simp: list_all2_conv_all_nth)
next
  case (2 np_index rest)
  then show ?case by simp
next
  case (3 v vs np_index rest)
  from "3.prems" obtain r row rs where
    r: "index1d v np_index = Inr r" "broadcast_row (length v) r = Inr row"
       "slice_rows vs rest = Inr rs" "objs = PArr row # rs"
    by (auto split: sum.splits)
  from r(2) have "length row = length v"
    by (auto simp: broadcast_row_def split: pobj.splits if_splits)
  with "3.IH"[OF r(1) r(2) r(3)] r(4) show ?case by simp
qed

lemma reduced_items_all_kept:
  "list_all2 (\<lambda>v obj. \<exists>row. obj = PArr row \<and> length row = length v) pvl objs \<Longrightarrow>
   length names = length pvl \<Longrightarrow> \<forall>v\<in>set pvl. 1 < length v \<Longrightarrow>
   map fst (reduced_items names objs) = names"
proof (induction names objs arbitrary: pvl rule: reduced_items.induct)
  case (1 nm names paramvals rest)
  from "1.prems" obtain v vs where pvl: "pvl = v # vs" by (cases pvl) auto
  with "1.prems" obtain row where row: "paramvals = PArr row" "length row = length v"
    and rest: "list_all2 (\<lambda>v obj. \<exists>row. obj = PArr row \<and> length row = length v) vs rest"
    by auto
  from "1.prems"(3) pvl row have k: "kept_paramvals paramvals = Some row"
    by (simp add: kept_paramvals_def)
  from "1.IH"(2)[OF k rest] "1.prems"(2,3) pvl
  have "map fst (reduced_items names rest) = names" by simp
  with k show ?case by simp
qed simp_all

text \<open>
  When all value sequences have the same length, greater than 1, the result of
  \<^verbatim>\<open>create_sliced\<close> lists every axis, whatever the indices are.
\<close>

lemma create_sliced_rectangular_keeps_all:
  assumes "paramvals_list ps = Inr pvl" and "rectangular pvl" and "\<forall>v\<in>set pvl. 1 < length v"
    and "distinct (paramnames_list ps)" and "create_sliced ps ixs = Inr q"
  shows "map fst (paramvals_by_name q) = paramnames_list ps"
proof -
  from assms(5) assms(1,2) obtain objs where objs: "slice_rows pvl ixs = Inr objs"
    by (auto simp: create_sliced_def split: sum.splits)
  then have "(if rectangular pvl then slice_rows pvl ixs else slice_each pvl ixs) = Inr objs"
    using assms(2) by simp
  from create_sliced_result[OF assms(1) this assms(4)] assms(5)
  have q: "paramvals_by_name q = reduced_items (paramnames_list ps) objs" by auto
  from try_map_Inr_D[OF assms(1)[unfolded paramvals_list_def]]
  have len: "length (paramnames_list ps) = length pvl" by simp
  from reduced_items_all_kept[OF slice_rows_keeps_length[OF objs] len assms(3)] q
  show ?thesis by simp
qed

text \<open>
  C7, evaluated on two axes \<^verbatim>\<open>a = [1, 2]\<close> and \<^verbatim>\<open>b = [3, 4]\<close> of equal length with the
  index tuple \<^verbatim>\<open>(0,)\<close>. The integer index selects the single value 1 of axis \<^verbatim>\<open>a\<close>,
  but the axis is not removed: the result still lists \<^verbatim>\<open>a\<close>, with the value sequence
  \<^verbatim>\<open>[1, 1]\<close>. With the axes \<^verbatim>\<open>ng\<close> and \<^verbatim>\<open>flux\<close>, of lengths 4 and 5, the same index
  removes the axis \<^verbatim>\<open>ng\<close>.
\<close>

theorem create_sliced_equal_lengths_keeps_axis:
  "Parameters_init square_axes None = Inr square_parameters \<and>
   create_sliced square_parameters [NpInt 0] =
     Inr \<lparr>paramnames_list = [''a'', ''b''],
          paramvals_by_name = [(''a'', [1, 1]), (''b'', [3, 4])],
          index_by_name = [(''a'', 0), (''b'', 1)],
          name_by_index = [(0, ''a''), (1, ''b'')],
          paramvals_by_index = [(0, [1, 1]), (1, [3, 4])]\<rparr> \<and>
   create_sliced ng_flux_parameters [NpInt 0] =
     Inr \<lparr>paramnames_list = [''flux''],
          paramvals_by_name = [(''flux'', flux_vals)],
          index_by_name = [(''flux'', 0)],
          name_by_index = [(0, ''flux'')],
          paramvals_by_index = [(0, flux_vals)]\<rparr>"
  by code_simp

section \<open>Positional indexing\<close>

lemma plain_component_std:
  "plain_component s = Some c \<Longrightarrow> std_slice_entry ps sl s = Inr c"
  by (cases s) (auto simp: std_slice_entry_def)

lemma plain_index_std:
  assumes "plain_index ent = Some ix"
  shows "\<exists>ty. std ps sl ent = Inr (None, ty, ix) \<and> ty \<noteq> ''slice.name''"
proof (cases ent)
  case (EInt i)
  with assms show ?thesis by (simp add: std_def)
next
  case (ESlice a b c)
  with assms obtain start stop step where
    p: "plain_component a = Some start" "plain_component b = Some stop"
       "plain_component c = Some step" "ix = NpSlice start stop step"
    by (auto split: option.splits)
  from p(1) have a: "\<forall>nm. a \<noteq> SStr nm" by (cases a) auto
  have "std ps sl (ESlice a b c) = Inr (None, ''slice'', NpSlice start stop step)"
    using a p(3) plain_component_std[OF p(1), of ps sl] plain_component_std[OF p(2), of ps sl]
    by (cases a; cases c) (simp_all add: std_def)
  then show ?thesis by (simp add: ESlice p(4))
qed (use assms in simp_all)

lemma plain_GIndexObject:
  assumes "plain_index ent = Some ix"
  shows "\<exists>g. GIndexObject_init ent ps sl = Inr g \<and> std_index g = ix \<and> gtype g \<noteq> ''slice.name''"
proof -
  from plain_index_std[OF assms, of ps sl] obtain ty where
    "std ps sl ent = Inr (None, ty, ix)" "ty \<noteq> ''slice.name''" by blast
  then have "GIndexObject_init ent ps sl =
          Inr \<lparr>entry = ent, slot = sl, name = None, gtype = ty, std_index = ix\<rparr>"
    by (simp add: GIndexObject_init_def)
  with \<open>ty \<noteq> ''slice.name''\<close> show ?thesis by simp
qed

lemma plain_tuple_objects:
  "map plain_index T = map Some ixs \<Longrightarrow>
   \<exists>gs. try_map (\<lambda>(slot_index, ent). GIndexObject_init ent ps slot_index) (enumerate k T) = Inr gs \<and>
        map std_index gs = ixs \<and> (\<forall>g\<in>set gs. gtype g \<noteq> ''slice.name'')"
proof (induction T arbitrary: ixs k)
  case Nil
  then show ?case by simp
next
  case (Cons ent T)
  then obtain ix ixs' where ixs: "ixs = ix # ixs'" "plain_index ent = Some ix"
    "map plain_index T = map Some ixs'" by (cases ixs) auto
  from plain_GIndexObject[OF ixs(2), of ps k] obtain g where
    g: "GIndexObject_init ent ps k = Inr g" "std_index g = ix" "gtype g \<noteq> ''slice.name''" by blast
  from Cons.IH[OF ixs(3), of "Suc k"] obtain gs where
    gs: "try_map (\<lambda>(slot_index, ent). GIndexObject_init ent ps slot_index) (enumerate (Suc k) T) = Inr gs"
      "map std_index gs = ixs'" "\<forall>g\<in>set gs. gtype g \<noteq> ''slice.name''" by blast
  have "try_map (\<lambda>(slot_index, ent). GIndexObject_init ent ps slot_index) (enumerate k (ent # T))
          = Inr (g # gs)"
    by (simp add: g(1) gs(1))
  moreover have "map std_index (g # gs) = ixs" by (simp add: g(2) gs(2) ixs(1))
  moreover have "\<forall>h\<in>set (g # gs). gtype h \<noteq> ''slice.name''" using g(3) gs(3) by simp
  ultimately show ?case by blast
qed

lemma getitem_plain_tuple:
  assumes "map plain_index T = map Some ixs" and "T \<noteq> []"
  shows "getitem self (Tuple T) =
           (case super_getitem self ixs of
              Inl e \<Rightarrow> Inl e
            | Inr (Element x) \<Rightarrow> Inr (Element x)
            | Inr (View obj) \<Rightarrow>
                (case create_sliced (parameters self) ixs of
                   Inl e \<Rightarrow> Inl e
                 | Inr ps \<Rightarrow> Inr (View (obj\<lparr>parameters := ps\<rparr>))))"
proof -
  from plain_tuple_objects[OF assms(1), of "parameters self" 0] obtain gs where
    gs: "try_map (\<lambda>(slot_index, ent). GIndexObject_init ent (parameters self) slot_index)
           (enumerate 0 T) = Inr gs"
      "map std_index gs = ixs" "\<forall>g\<in>set gs. gtype g \<noteq> ''slice.name''" by blast
  from assms(2) gs(1) have "gs \<noteq> []" by (cases T) (auto split: sum.splits)
  then obtain g gs' where g: "gs = g # gs'" by (cases gs) auto
  with gs(3) have "gtype g \<noteq> ''slice.name''" by simp
  then have t: "to_std_index_tuple self gs = Inr ixs"
    using gs(2) by (simp add: to_std_index_tuple_def g)
  show ?thesis
    unfolding getitem_def
    by (simp only: gindices.case gs(1) sum.case t Let_def)
qed

lemma super_getitem_array:
  "super_getitem self ixs = Inr r \<Longrightarrow> ndarray_getitem ixs (data self) = Inr (item_array r)"
  by (auto simp: super_getitem_def array_finalize_def split: sum.splits ndarray.splits)

lemma getitem_plain_tuple_data:
  assumes "map plain_index T = map Some ixs" and "getitem self (Tuple T) = Inr r"
  shows "ndarray_getitem ixs (data self) = Inr (item_array r)"
proof -
  have "T \<noteq> []"
  proof
    assume "T = []"
    with assms(2) show False by (simp add: getitem_def to_std_index_tuple_def)
  qed
  from getitem_plain_tuple[OF assms(1) this, of self] assms(2)
  have c: "(case super_getitem self ixs of
              Inl e \<Rightarrow> Inl e
            | Inr (Element x) \<Rightarrow> Inr (Element x)
            | Inr (View obj) \<Rightarrow>
                (case create_sliced (parameters self) ixs of
                   Inl e \<Rightarrow> Inl e
                 | Inr ps \<Rightarrow> Inr (View (obj\<lparr>parameters := ps\<rparr>)))) = Inr r" by simp
  then obtain r0 where r0: "super_getitem self ixs = Inr r0" by (cases "super_getitem self ixs") auto
  from c r0 have "item_array r = item_array r0"
    by (cases r0) (auto split: sum.splits)
  with super_getitem_array[OF r0] show ?thesis by simp
qed

text \<open>
  C6, evaluated on the array over the single axis \<^verbatim>\<open>param1\<close> with the index tuple
  \<^verbatim>\<open>(slice(0, 2),)\<close>. Slicing the dense array gives its first two elements; indexing the
  labelled array raises \<^verbatim>\<open>ValueError\<close>, from \<^verbatim>\<open>create_sliced\<close>. The empty tuple, which
  selects the whole dense array, raises \<^verbatim>\<open>IndexError\<close>. So does a tuple with more entries
  than there are named axes when the result is an array: on the array of shape
  \<open>(2, 3, 2)\<close> with two named axes, \<^verbatim>\<open>(0, 1, slice(None))\<close> selects a row of the dense
  array and raises \<^verbatim>\<open>IndexError\<close> on the labelled one.
\<close>

theorem plain_slice_on_single_axis_fails:
  "Parameters_init param1_axes None = Inr param1_parameters \<and>
   NamedSlotsNdarray_new (data param1_array) param1_axes = Inr param1_array \<and>
   ndarray_getitem [NpSlice (Some 0) (Some 2) None] (data param1_array)
     = Inr (Array [Scalar 10, Scalar 20]) \<and>
   getitem param1_array (Tuple [ESlice (SInt 0) (SInt 2) SNone]) = Inl ValueError \<and>
   create_sliced param1_parameters [NpSlice (Some 0) (Some 2) None] = Inl ValueError \<and>
   ndarray_getitem [] (data param1_array) = Inr (data param1_array) \<and>
   getitem param1_array (Tuple []) = Inl IndexError \<and>
   NamedSlotsNdarray_new cube_data cube_axes = Inr cube_array \<and>
   ndarray_getitem [NpInt 0, NpInt 1, NpSlice None None None] (data cube_array)
     = Inr (Array [Scalar 10, Scalar 11]) \<and>
   getitem cube_array (Tuple [EInt 0, EInt 1, ESlice SNone SNone SNone]) = Inl IndexError"
  by code_simp

end
